theory Spec2Isabelle
  imports Complex_Main "HOL-Library.Multiset"
begin

section \<open>Python values and numerics\<close>

text \<open>
  Floating-point numbers are modelled by the reals, so every statement below is about the
  exact arithmetic the formulas of the program denote. A metric bag (\<open>Dict\<close>) whose values
  are numbers is a map from key to real; the analyzers' results, which nest one level, are
  maps from key to such a bag.
\<close>

type_synonym pydict = "string \<rightharpoonup> real"
type_synonym pydict2 = "string \<rightharpoonup> pydict"

text \<open>\<open>d.get(k, default)\<close>\<close>

definition dict_get :: "pydict \<Rightarrow> string \<Rightarrow> real \<Rightarrow> real" where
  "dict_get d k dflt = (case d k of None \<Rightarrow> dflt | Some v \<Rightarrow> v)"

text \<open>\<open>round(x, 2)\<close>: to the nearest multiple of 1/100, a tie going to the even one.\<close>

definition round_half_even :: "real \<Rightarrow> int" where
  "round_half_even y =
     (let f = \<lfloor>y\<rfloor>
      in if y - real_of_int f < 1 / 2 then f
         else if 1 / 2 < y - real_of_int f then f + 1
         else if even f then f else f + 1)"

definition py_round2 :: "real \<Rightarrow> real" where
  "py_round2 x = real_of_int (round_half_even (x * 100)) / 100"

text \<open>\<open>int(x)\<close> on a float truncates towards zero.\<close>

definition py_int :: "real \<Rightarrow> int" where
  "py_int x = (if 0 \<le> x then \<lfloor>x\<rfloor> else \<lceil>x\<rceil>)"

text \<open>\<open>np.mean\<close>, \<open>np.var\<close> and \<open>np.std\<close> (population variance) of a non-empty array.\<close>

definition mean :: "real list \<Rightarrow> real" where
  "mean xs = sum_list xs / real (length xs)"

definition var :: "real list \<Rightarrow> real" where
  "var xs = mean (map (\<lambda>x. (x - mean xs)\<^sup>2) xs)"

definition std :: "real list \<Rightarrow> real" where
  "std xs = sqrt (var xs)"

section \<open>The quality score aggregator (\<open>batch_analyze.calculate_overall_score\<close>)\<close>

datatype grade = Excellent | Good | Fair | Poor | VeryPoor

record scores =
  fps_stability :: real
  pts_jitter :: real
  duplicate_frames :: real
  motion_continuity :: real
  wobble :: real
  quality :: real
  total_score :: real
  grade :: grade

definition fps_stability_of :: "pydict2 \<Rightarrow> real" where
  "fps_stability_of fps =
     (case fps ''overall_stats'' of
        Some fps_stats \<Rightarrow>
          (let cv = (if dict_get fps_stats ''mean_fps'' 0 > 0
                     then dict_get fps_stats ''std_fps'' 0 / dict_get fps_stats ''mean_fps'' 1 * 100
                     else 100)
           in py_round2 (max 0 (25 - cv * 0.5)))
      | None \<Rightarrow> 0)"

definition pts_jitter_of :: "pydict2 \<Rightarrow> real" where
  "pts_jitter_of motion =
     (case motion ''effective_fps_pts_jitter'' of
        Some pts_data \<Rightarrow>
          (let jitter_pct = dict_get pts_data ''jitter_percentage'' 100
           in py_round2 (max 0 (15 - jitter_pct * 0.3)))
      | None \<Rightarrow> 0)"

definition duplicate_frames_of :: "pydict2 \<Rightarrow> real" where
  "duplicate_frames_of motion =
     (case motion ''duplicate_frame_ratio'' of
        Some dup_data \<Rightarrow>
          (let dup_ratio = dict_get dup_data ''total_duplicate_ratio'' 1.0 * 100
           in py_round2 (max 0 (15 - dup_ratio * 3)))
      | None \<Rightarrow> 0)"

definition motion_continuity_of :: "pydict2 \<Rightarrow> real" where
  "motion_continuity_of motion =
     (case motion ''motion_continuity'' of
        Some motion_data \<Rightarrow>
          (let continuity_score = dict_get motion_data ''motion_continuity_score'' 0 * 0.25
           in py_round2 continuity_score)
      | None \<Rightarrow> 0)"

definition wobble_of :: "pydict2 \<Rightarrow> real" where
  "wobble_of motion =
     (case motion ''wobble_distortion'' of
        Some wobble_data \<Rightarrow>
          (let wobble_score_val = dict_get wobble_data ''wobble_distortion_score'' 100
           in py_round2 (max 0 (10 - wobble_score_val * 0.1)))
      | None \<Rightarrow> 0)"

definition quality_of :: "pydict2 \<Rightarrow> real" where
  "quality_of basic =
     (case basic ''resolution'' of
        Some resolution \<Rightarrow>
          (let width = dict_get resolution ''width'' 0;
               height = dict_get resolution ''height'' 0
           in if width \<ge> 3840 \<or> height \<ge> 2160 then 10
              else if width \<ge> 1920 \<or> height \<ge> 1080 then 8
              else if width \<ge> 1280 \<or> height \<ge> 720 then 5
              else 3)
      | None \<Rightarrow> 0)"

definition grade_of :: "real \<Rightarrow> grade" where
  "grade_of t =
     (if t \<ge> 90 then Excellent
      else if t \<ge> 80 then Good
      else if t \<ge> 70 then Fair
      else if t \<ge> 60 then Poor
      else VeryPoor)"

definition calculate_overall_score :: "pydict2 \<Rightarrow> pydict2 \<Rightarrow> pydict2 \<Rightarrow> pydict2 \<Rightarrow> scores" where
  "calculate_overall_score basic fps dynamics motion =
     (let s1 = fps_stability_of fps;
          s2 = pts_jitter_of motion;
          s3 = duplicate_frames_of motion;
          s4 = motion_continuity_of motion;
          s5 = wobble_of motion;
          s6 = quality_of basic;
          t = s1 + s2 + s3 + s4 + s5 + s6
      in \<lparr> fps_stability = s1, pts_jitter = s2, duplicate_frames = s3,
           motion_continuity = s4, wobble = s5, quality = s6,
           total_score = py_round2 t, grade = grade_of t \<rparr>)"

section \<open>Pairwise frame metrics and the duplicate classifier\<close>

text \<open>
  A grayscale buffer is the sequence of its pixel intensities (\<open>uint8\<close> values), row after
  row. Both buffers of a pair have the same shape. \<open>cv2.absdiff\<close> is the pixel-wise absolute
  difference.
\<close>

type_synonym gray = "nat list"

definition absdiff :: "gray \<Rightarrow> gray \<Rightarrow> gray" where
  "absdiff a b = map2 (\<lambda>x y. if x \<le> y then y - x else x - y) a b"

definition np_mean :: "gray \<Rightarrow> real" where
  "np_mean g = mean (map real g)"




text \<open>\<open>video_analyzer.VideoAnalyzer._calculate_simple_ssim\<close>\<close>

definition calculate_simple_ssim :: "gray \<Rightarrow> gray \<Rightarrow> real" where
  "calculate_simple_ssim img1 img2 =
     (let mu1 = np_mean img1;
          mu2 = np_mean img2;
          sigma1_sq = var (map real img1);
          sigma2_sq = var (map real img2);
          sigma12 = mean (map2 (\<lambda>x y. (real x - mu1) * (real y - mu2)) img1 img2);
          C1 = 0.01\<^sup>2;
          C2 = 0.03\<^sup>2
      in ((2 * mu1 * mu2 + C1) * (2 * sigma12 + C2)) /
         ((mu1\<^sup>2 + mu2\<^sup>2 + C1) * (sigma1_sq + sigma2_sq + C2)))"

text \<open>
  The body of the loop of \<open>_analyze_duplicate_frames\<close> for one sampled frame that has a
  predecessor: the two scores, then the nested test that decides which counter grows.
\<close>

definition diff_percentage :: "gray \<Rightarrow> gray \<Rightarrow> real" where
  "diff_percentage small prev_small =
     (let mean_diff = np_mean (absdiff small prev_small) / 255.0 in 1.0 - mean_diff)"

datatype frame_kind = Distinct | NearDuplicate | ExactDuplicate

definition classify :: "real \<Rightarrow> real \<Rightarrow> real \<Rightarrow> real \<Rightarrow> frame_kind" where
  "classify diff_threshold ssim_threshold diff_pct ssim_score =
     (if diff_pct \<ge> diff_threshold \<or> ssim_score \<ge> ssim_threshold
      then (if diff_pct \<ge> 0.995 \<or> ssim_score \<ge> 0.99 then ExactDuplicate else NearDuplicate)
      else Distinct)"

text \<open>
  \<open>cv2.resize(gray, (160, 120))\<close> belongs to the imaging backend: \<open>resize\<close> stands for it, a
  function of the buffer alone.
\<close>

definition classify_pair :: "(gray \<Rightarrow> gray) \<Rightarrow> real \<Rightarrow> real \<Rightarrow> gray \<Rightarrow> gray \<Rightarrow> frame_kind" where
  "classify_pair resize diff_threshold ssim_threshold gray prev_frame =
     (let small = resize gray;
          prev_small = resize prev_frame
      in classify diff_threshold ssim_threshold
           (diff_percentage small prev_small) (calculate_simple_ssim small prev_small))"

text \<open>
  The loop of \<open>_analyze_duplicate_frames\<close> over the frames \<open>cap.read()\<close> yields, its local
  variables as arguments: a frame whose number is no multiple of \<open>sample_rate\<close> is skipped.
  Python's \<open>%\<close> on integers is \<open>mod\<close> on \<open>int\<close>; a \<open>sample_rate\<close> of 0 raises on the first
  frame (see \<open>analyze_duplicate_frames\<close>).
\<close>

fun dup_loop ::
  "(gray \<Rightarrow> gray) \<Rightarrow> int \<Rightarrow> real \<Rightarrow> real \<Rightarrow> gray list \<Rightarrow>
   gray option \<Rightarrow> nat \<Rightarrow> nat \<Rightarrow> nat \<Rightarrow> nat \<Rightarrow> nat list \<Rightarrow> nat \<times> nat \<times> nat \<times> nat list" where
  "dup_loop resize sample_rate dt st [] prev_frame duplicate_count near_duplicate_count
       frame_number analyzed_count dup_frames =
     (duplicate_count, near_duplicate_count, analyzed_count, dup_frames)"
| "dup_loop resize sample_rate dt st (gray # rest) prev_frame duplicate_count near_duplicate_count
       frame_number analyzed_count dup_frames =
     (if int frame_number mod sample_rate \<noteq> 0
      then dup_loop resize sample_rate dt st rest prev_frame duplicate_count near_duplicate_count
             (frame_number + 1) analyzed_count dup_frames
      else (case prev_frame of
              None \<Rightarrow>
                dup_loop resize sample_rate dt st rest (Some gray) duplicate_count
                  near_duplicate_count (frame_number + 1) (analyzed_count + 1) dup_frames
            | Some prev \<Rightarrow>
                (case classify_pair resize dt st gray prev of
                   ExactDuplicate \<Rightarrow>
                     dup_loop resize sample_rate dt st rest (Some gray) (duplicate_count + 1)
                       near_duplicate_count (frame_number + 1) (analyzed_count + 1)
                       (dup_frames @ [frame_number])
                 | NearDuplicate \<Rightarrow>
                     dup_loop resize sample_rate dt st rest (Some gray) duplicate_count
                       (near_duplicate_count + 1) (frame_number + 1) (analyzed_count + 1) dup_frames
                 | Distinct \<Rightarrow>
                     dup_loop resize sample_rate dt st rest (Some gray) duplicate_count
                       near_duplicate_count (frame_number + 1) (analyzed_count + 1) dup_frames)))"

datatype py_error = ZeroDivisionError | FileNotFoundError | ValueError

text \<open>
  The bag \<open>_analyze_duplicate_frames\<close> returns. Its entry \<open>duplicate_frame_indices\<close> (the
  numbers of the first 100 exact duplicates, the fourth component of the loop's result) is
  a list, not a number, and is not part of the bag.
\<close>

definition analyze_duplicate_frames ::
  "(gray \<Rightarrow> gray) \<Rightarrow> gray list \<Rightarrow> int \<Rightarrow> real \<Rightarrow> real \<Rightarrow> py_error + pydict" where
  "analyze_duplicate_frames resize frames sample_rate diff_threshold ssim_threshold =
     (if sample_rate = 0 \<and> frames \<noteq> [] then Inl ZeroDivisionError
      else
        (case dup_loop resize sample_rate diff_threshold ssim_threshold frames None 0 0 0 0 [] of
           (duplicate_count, near_duplicate_count, analyzed_count, dup_frames) \<Rightarrow>
             (let total_frames = analyzed_count;
                  duplicate_ratio =
                    (if total_frames > 0 then real duplicate_count / real total_frames else 0.0);
                  near_duplicate_ratio =
                    (if total_frames > 0 then real near_duplicate_count / real total_frames else 0.0);
                  total_duplicate_ratio =
                    (if total_frames > 0
                     then real (duplicate_count + near_duplicate_count) / real total_frames
                     else 0.0)
              in Inr [''duplicate_frame_count'' \<mapsto> real duplicate_count,
                      ''near_duplicate_frame_count'' \<mapsto> real near_duplicate_count,
                      ''total_analyzed_frames'' \<mapsto> real total_frames,
                      ''analyzed_frame_count'' \<mapsto> real analyzed_count,
                      ''duplicate_ratio'' \<mapsto> duplicate_ratio,
                      ''near_duplicate_ratio'' \<mapsto> near_duplicate_ratio,
                      ''total_duplicate_ratio'' \<mapsto> total_duplicate_ratio])))"

section \<open>Motion continuity (\<open>_analyze_motion_continuity\<close>)\<close>

text \<open>
  A motion field is a grid of displacement vectors \<open>(dx, dy)\<close>, a list of rows, of the shape
  of the frames. \<open>cv2.calcOpticalFlowFarneback\<close> is the motion-estimation backend:
  \<open>farneback\<close> stands for it.
\<close>

type_synonym flow = "(real \<times> real) list list"

definition magnitude :: "real \<times> real \<Rightarrow> real" where
  "magnitude v = sqrt ((fst v)\<^sup>2 + (snd v)\<^sup>2)"

definition mean_flow_magnitude :: "flow \<Rightarrow> real" where
  "mean_flow_magnitude fl = mean (map magnitude (concat fl))"

fun mc_loop ::
  "(gray \<Rightarrow> gray \<Rightarrow> flow) \<Rightarrow> int \<Rightarrow> gray list \<Rightarrow>
   gray option \<Rightarrow> real list \<Rightarrow> real list \<Rightarrow> nat \<Rightarrow> nat \<Rightarrow> real list \<times> real list" where
  "mc_loop farneback sample_rate [] prev_gray motion_magnitudes jerk_values
       frame_number analyzed_count =
     (motion_magnitudes, jerk_values)"
| "mc_loop farneback sample_rate (gray # rest) prev_gray motion_magnitudes jerk_values
       frame_number analyzed_count =
     (if int frame_number mod sample_rate \<noteq> 0
      then mc_loop farneback sample_rate rest prev_gray motion_magnitudes jerk_values
             (frame_number + 1) analyzed_count
      else (case prev_gray of
              None \<Rightarrow>
                mc_loop farneback sample_rate rest (Some gray) motion_magnitudes jerk_values
                  (frame_number + 1) (analyzed_count + 1)
            | Some prev \<Rightarrow>
                mc_loop farneback sample_rate rest (Some gray)
                  (motion_magnitudes @ [mean_flow_magnitude (farneback prev gray)])
                  (let ms = motion_magnitudes @ [mean_flow_magnitude (farneback prev gray)];
                       n = length ms
                   in if n \<ge> 3
                      then jerk_values @ [\<bar>ms ! (n - 1) - 2 * ms ! (n - 2) + ms ! (n - 3)\<bar>]
                      else jerk_values)
                  (frame_number + 1) (analyzed_count + 1)))"

text \<open>The branch \<open>if len(jerk_values) > 0\<close>: mean jerk, peak ratio and jerkiness score.\<close>

definition jerkiness :: "real \<Rightarrow> real list \<Rightarrow> real \<times> real \<times> real" where
  "jerkiness mean_motion jerk_values =
     (if length jerk_values > 0
      then (let mean_jerk = mean jerk_values;
                threshold = mean_jerk + 2 * std jerk_values;
                jerk_peaks = length (filter (\<lambda>j. j > threshold) jerk_values);
                jerk_peak_ratio =
                  (if length jerk_values > 0 then real jerk_peaks / real (length jerk_values)
                   else 0.0);
                jerkiness_score =
                  min 100.0 (if mean_motion > 0
                             then jerk_peak_ratio * 50 + mean_jerk / mean_motion * 50
                             else 0.0)
            in (mean_jerk, jerk_peak_ratio, jerkiness_score))
      else (0.0, 0.0, 0.0))"

definition motion_continuity_result :: "real list \<Rightarrow> real list \<Rightarrow> pydict" where
  "motion_continuity_result motion_magnitudes jerk_values =
     (if length motion_magnitudes = 0
      then [''mean_motion_magnitude'' \<mapsto> 0.0,
            ''motion_std'' \<mapsto> 0.0,
            ''mean_jerk'' \<mapsto> 0.0,
            ''jerk_peak_ratio'' \<mapsto> 0.0,
            ''jerkiness_score'' \<mapsto> 0.0]
      else (let mean_motion = mean motion_magnitudes;
                motion_std = std motion_magnitudes
            in case jerkiness mean_motion jerk_values of
                 (mean_jerk, jerk_peak_ratio, jerkiness_score) \<Rightarrow>
                   [''mean_motion_magnitude'' \<mapsto> mean_motion,
                    ''motion_std'' \<mapsto> motion_std,
                    ''mean_jerk'' \<mapsto> mean_jerk,
                    ''jerk_peak_ratio'' \<mapsto> jerk_peak_ratio,
                    ''jerkiness_score'' \<mapsto> jerkiness_score,
                    ''motion_continuity_score'' \<mapsto> 100.0 - jerkiness_score]))"

definition analyze_motion_continuity ::
  "(gray \<Rightarrow> gray \<Rightarrow> flow) \<Rightarrow> gray list \<Rightarrow> int \<Rightarrow> py_error + pydict" where
  "analyze_motion_continuity farneback frames sample_rate =
     (if sample_rate = 0 \<and> frames \<noteq> [] then Inl ZeroDivisionError
      else (case mc_loop farneback sample_rate frames None [] [] 0 0 of
              (motion_magnitudes, jerk_values) \<Rightarrow>
                Inr (motion_continuity_result motion_magnitudes jerk_values)))"

section \<open>Wobble distortion (\<open>_analyze_wobble_distortion\<close>)\<close>

text \<open>\<open>np.arctan2(y, x)\<close>, the angle of the vector \<open>(x, y)\<close> in (-pi, pi].\<close>

definition arctan2 :: "real \<Rightarrow> real \<Rightarrow> real" where
  "arctan2 y x =
     (if x > 0 then arctan (y / x)
      else if x < 0 \<and> y \<ge> 0 then arctan (y / x) + pi
      else if x < 0 then arctan (y / x) - pi
      else if y > 0 then pi / 2
      else if y < 0 then - pi / 2
      else 0)"

text \<open>\<open>flow.shape[:2]\<close> and the slice \<open>flow[y_start:y_end, x_start:x_end]\<close>, flattened.\<close>

definition flow_height :: "flow \<Rightarrow> nat" where
  "flow_height fl = length fl"

definition flow_width :: "flow \<Rightarrow> nat" where
  "flow_width fl = (case fl of [] \<Rightarrow> 0 | row # _ \<Rightarrow> length row)"

definition slice :: "nat \<Rightarrow> nat \<Rightarrow> 'a list \<Rightarrow> 'a list" where
  "slice start stop xs = take (stop - start) (drop start xs)"

definition block_flow :: "flow \<Rightarrow> nat \<Rightarrow> nat \<Rightarrow> nat \<Rightarrow> nat \<Rightarrow> (real \<times> real) list" where
  "block_flow fl y_start y_end x_start x_end =
     concat (map (slice x_start x_end) (slice y_start y_end fl))"

definition grid_size :: nat where
  "grid_size = 8"

text \<open>
  The rows (or columns) of block \<open>i\<close> along an axis of \<open>n\<close> cells, from the first to just
  before the second: \<open>i * grid_h\<close> and \<open>(i + 1) * grid_h if i < grid_size - 1 else h\<close>.
\<close>

definition block_range :: "nat \<Rightarrow> nat \<Rightarrow> nat \<times> nat" where
  "block_range n i =
     (let grid_n = n div grid_size
      in (i * grid_n, if i < grid_size - 1 then (i + 1) * grid_n else n))"

definition grid_block :: "flow \<Rightarrow> nat \<Rightarrow> nat \<Rightarrow> (real \<times> real) list" where
  "grid_block fl i j =
     (let h = flow_height fl;
          w = flow_width fl;
          (y_start, y_end) = block_range h i;
          (x_start, x_end) = block_range w j
      in block_flow fl y_start y_end x_start x_end)"

text \<open>
  The score of block \<open>(i, j)\<close>. \<open>np.var\<close> of an empty block (a field with fewer rows or
  columns than the grid) is NaN, which is \<open>None\<close> here.
\<close>

definition block_variance :: "flow \<Rightarrow> nat \<Rightarrow> nat \<Rightarrow> real option" where
  "block_variance fl i j =
     (let blk = grid_block fl i j;
          block_magnitude = map magnitude blk;
          block_direction = map (\<lambda>v. arctan2 (snd v) (fst v)) blk
      in if blk = [] then None
         else (let mag_variance = var block_magnitude;
                   dir_variance = var block_direction
               in Some (mag_variance + dir_variance * 10)))"

text \<open>\<open>np.mean\<close> and \<open>np.std\<close> of a list of floats some of which may be NaN.\<close>

definition nan_mean :: "real option list \<Rightarrow> real option" where
  "nan_mean xs = (if None \<in> set xs then None else Some (mean (map the xs)))"

definition nan_std :: "real option list \<Rightarrow> real option" where
  "nan_std xs = (if None \<in> set xs then None else Some (std (map the xs)))"

definition block_variances :: "flow \<Rightarrow> real option list" where
  "block_variances fl =
     concat (map (\<lambda>i. map (\<lambda>j. block_variance fl i j) [0..<grid_size]) [0..<grid_size])"

definition grid_variance_score :: "flow \<Rightarrow> real option" where
  "grid_variance_score fl = nan_mean (block_variances fl)"

fun wobble_loop ::
  "(gray \<Rightarrow> gray \<Rightarrow> flow) \<Rightarrow> int \<Rightarrow> gray list \<Rightarrow>
   gray option \<Rightarrow> real option list \<Rightarrow> nat \<Rightarrow> nat \<Rightarrow> real option list" where
  "wobble_loop farneback sample_rate [] prev_gray grid_variance_scores
       frame_number analyzed_count =
     grid_variance_scores"
| "wobble_loop farneback sample_rate (gray # rest) prev_gray grid_variance_scores
       frame_number analyzed_count =
     (if int frame_number mod sample_rate \<noteq> 0
      then wobble_loop farneback sample_rate rest prev_gray grid_variance_scores
             (frame_number + 1) analyzed_count
      else (case prev_gray of
              None \<Rightarrow>
                wobble_loop farneback sample_rate rest (Some gray) grid_variance_scores
                  (frame_number + 1) (analyzed_count + 1)
            | Some prev \<Rightarrow>
                wobble_loop farneback sample_rate rest (Some gray)
                  (grid_variance_scores @ [grid_variance_score (farneback prev gray)])
                  (frame_number + 1) (analyzed_count + 1)))"

text \<open>
  The three values the analyzer returns. \<open>min(100.0, x)\<close> is \<open>x\<close> when \<open>x < 100.0\<close> and 100.0
  otherwise, also when \<open>x\<close> is NaN.
\<close>

record wobble_values =
  mean_wobble_score :: "real option"
  wobble_std :: "real option"
  wobble_distortion_score :: real

definition wobble_result :: "real option list \<Rightarrow> wobble_values" where
  "wobble_result grid_variance_scores =
     (if length grid_variance_scores = 0
      then \<lparr> mean_wobble_score = Some 0.0, wobble_std = Some 0.0, wobble_distortion_score = 0.0 \<rparr>
      else (let mean_wobble = nan_mean grid_variance_scores;
                wobble_sd = nan_std grid_variance_scores;
                normalized_wobble =
                  (case mean_wobble of
                     None \<Rightarrow> 100.0
                   | Some m \<Rightarrow> if m * 10 < 100.0 then m * 10 else 100.0)
            in \<lparr> mean_wobble_score = mean_wobble, wobble_std = wobble_sd,
                 wobble_distortion_score = normalized_wobble \<rparr>))"

definition analyze_wobble_distortion ::
  "(gray \<Rightarrow> gray \<Rightarrow> flow) \<Rightarrow> gray list \<Rightarrow> int \<Rightarrow> py_error + wobble_values" where
  "analyze_wobble_distortion farneback frames sample_rate =
     (if sample_rate = 0 \<and> frames \<noteq> [] then Inl ZeroDivisionError
      else Inr (wobble_result (wobble_loop farneback sample_rate frames None [] 0 0)))"

text \<open>
  The returned bag. An entry that is NaN has no real value and is left out; the aggregator
  reads \<open>wobble_distortion_score\<close> only, which is never NaN.
\<close>

definition wobble_dict :: "wobble_values \<Rightarrow> pydict" where
  "wobble_dict r =
     (\<lambda>k. if k = ''mean_wobble_score'' then mean_wobble_score r
          else if k = ''wobble_std'' then wobble_std r
          else if k = ''wobble_distortion_score'' then Some (wobble_distortion_score r)
          else None)"

section \<open>PTS jitter (\<open>_analyze_pts_jitter\<close>)\<close>

text \<open>
  A decoded video, as the capture hands it over: the declared frame rate, the declared frame
  count and size, the grayscale buffer of every frame \<open>cap.read()\<close> yields, and the position
  in milliseconds after every \<open>cap.grab()\<close>.
\<close>

record video =
  declared_fps :: real
  total_frame_count :: int
  width :: int
  height :: int
  frames :: "gray list"
  pts_ms :: "real list"

fun pts_loop :: "real list \<Rightarrow> real list \<Rightarrow> real list \<Rightarrow> nat \<Rightarrow> real list" where
  "pts_loop [] pts_list frame_times frame_number = frame_times"
| "pts_loop (ms # rest) pts_list frame_times frame_number =
     (let pts_sec = ms / 1000.0
      in pts_loop rest (pts_list @ [pts_sec])
           (if frame_number > 0 then frame_times @ [pts_sec - last pts_list] else frame_times)
           (frame_number + 1))"

definition analyze_pts_jitter :: "real list \<Rightarrow> real \<Rightarrow> pydict" where
  "analyze_pts_jitter grabbed fps_declared =
     (let frame_times = pts_loop grabbed [] [] 0
      in if length frame_times = 0
         then [''effective_fps'' \<mapsto> fps_declared,
               ''pts_jitter_std'' \<mapsto> 0.0,
               ''pts_jitter_max'' \<mapsto> 0.0,
               ''expected_delta'' \<mapsto> (if fps_declared > 0 then 1.0 / fps_declared else 0.0),
               ''mean_delta'' \<mapsto> 0.0]
         else (let expected_delta = (if fps_declared > 0 then 1.0 / fps_declared else 0.0);
                   mean_delta = mean frame_times;
                   effective_fps = (if mean_delta > 0 then 1.0 / mean_delta else 0.0);
                   jitter_std = std frame_times;
                   jitter_max = Max (set (map (\<lambda>t. \<bar>t - expected_delta\<bar>) frame_times))
               in [''effective_fps'' \<mapsto> effective_fps,
                   ''declared_fps'' \<mapsto> fps_declared,
                   ''pts_jitter_std'' \<mapsto> jitter_std,
                   ''pts_jitter_max'' \<mapsto> jitter_max,
                   ''expected_delta'' \<mapsto> expected_delta,
                   ''mean_delta'' \<mapsto> mean_delta,
                   ''jitter_percentage'' \<mapsto>
                      (if expected_delta > 0 then jitter_std / expected_delta * 100 else 0.0)]))"

section \<open>The four motion metrics together (\<open>analyze_motion_quality\<close>)\<close>

definition analyze_motion_quality ::
  "(gray \<Rightarrow> gray) \<Rightarrow> (gray \<Rightarrow> gray \<Rightarrow> flow) \<Rightarrow> video \<Rightarrow> int \<Rightarrow> real \<Rightarrow> real \<Rightarrow>
   py_error + pydict2" where
  "analyze_motion_quality resize farneback v sample_rate duplicate_threshold ssim_threshold =
     (let pts_data = analyze_pts_jitter (pts_ms v) (declared_fps v)
      in case analyze_duplicate_frames resize (frames v) sample_rate
                duplicate_threshold ssim_threshold of
           Inl e \<Rightarrow> Inl e
         | Inr duplicate_data \<Rightarrow>
             (case analyze_motion_continuity farneback (frames v) sample_rate of
                Inl e \<Rightarrow> Inl e
              | Inr motion_continuity_data \<Rightarrow>
                  (case analyze_wobble_distortion farneback (frames v) sample_rate of
                     Inl e \<Rightarrow> Inl e
                   | Inr wobble_data \<Rightarrow>
                       Inr [''video_info'' \<mapsto>
                              [''declared_fps'' \<mapsto> declared_fps v,
                               ''total_frame_count'' \<mapsto> real_of_int (total_frame_count v),
                               ''analyzed_frames'' \<mapsto>
                                  dict_get duplicate_data ''analyzed_frame_count'' 0],
                            ''effective_fps_pts_jitter'' \<mapsto> pts_data,
                            ''duplicate_frame_ratio'' \<mapsto> duplicate_data,
                            ''motion_continuity'' \<mapsto> motion_continuity_data,
                            ''wobble_distortion'' \<mapsto> wobble_dict wobble_data])))"

section \<open>Per-second buckets (\<open>analyze_fps_dynamics\<close>, \<open>_aggregate_by_second\<close>)\<close>

text \<open>
  A \<open>defaultdict\<close> keyed by the second, as an association list in insertion order:
  \<open>d[k] = f(d[k])\<close>, a missing key starting from the default.
\<close>

fun defaultdict_update :: "'v \<Rightarrow> ('v \<Rightarrow> 'v) \<Rightarrow> int \<Rightarrow> (int \<times> 'v) list \<Rightarrow> (int \<times> 'v) list" where
  "defaultdict_update dflt f k [] = [(k, f dflt)]"
| "defaultdict_update dflt f k ((k', v) # kvs) =
     (if k = k' then (k', f v) # kvs else (k', v) # defaultdict_update dflt f k kvs)"

text \<open>\<open>sorted(d.items())\<close>: the keys are distinct, so the order is that of the keys.\<close>

definition sorted_items :: "(int \<times> 'v) list \<Rightarrow> (int \<times> 'v) list" where
  "sorted_items kvs = sort_key fst kvs"

text \<open>
  The reading loop of \<open>analyze_fps_dynamics\<close>. Every hundredth frame it prints a percentage
  of the declared frame count, a division that raises when that count is 0.
\<close>

fun fps_loop ::
  "real \<Rightarrow> int \<Rightarrow> gray list \<Rightarrow> (int \<times> nat) list \<Rightarrow> nat \<Rightarrow>
   py_error + ((int \<times> nat) list \<times> nat)" where
  "fps_loop fps_declared count_declared [] frames_per_second frame_number =
     Inr (frames_per_second, frame_number)"
| "fps_loop fps_declared count_declared (frame # rest) frames_per_second frame_number =
     (let timestamp = (if fps_declared > 0 then real frame_number / fps_declared else 0);
          second = py_int timestamp
      in if (frame_number + 1) mod 100 = 0 \<and> count_declared = 0 then Inl ZeroDivisionError
         else fps_loop fps_declared count_declared rest
                (defaultdict_update 0 (\<lambda>c. c + 1) second frames_per_second) (frame_number + 1))"

record bucket =
  fps :: real
  frame_count :: nat
  is_complete_second :: bool
  actual_duration :: real

definition per_second_bucket :: "real \<Rightarrow> int \<Rightarrow> int \<Rightarrow> nat \<Rightarrow> bucket" where
  "per_second_bucket duration last_second second n =
     (let is_complete = (second \<noteq> last_second);
          actual_duration_of_last_second = duration - real_of_int last_second;
          rate = (if is_complete then real n
                  else if actual_duration_of_last_second > 0
                       then real n / actual_duration_of_last_second
                       else real n)
      in \<lparr> fps = rate, frame_count = n, is_complete_second = is_complete,
           actual_duration = (if is_complete then duration else actual_duration_of_last_second) \<rparr>)"

definition per_second_fps :: "real \<Rightarrow> nat \<Rightarrow> (int \<times> nat) list \<Rightarrow> (int \<times> bucket) list" where
  "per_second_fps fps_declared frame_number frames_per_second =
     (let all_seconds = sort (map fst frames_per_second);
          duration = (if fps_declared > 0 then real frame_number / fps_declared else 0)
      in if all_seconds = [] then []
         else map (\<lambda>(second, n). (second, per_second_bucket duration (last all_seconds) second n))
                (sorted_items frames_per_second))"

text \<open>\<open>np.median\<close>\<close>

definition median :: "real list \<Rightarrow> real" where
  "median xs =
     (let ys = sort xs; n = length ys
      in if even n then (ys ! (n div 2 - 1) + ys ! (n div 2)) / 2 else ys ! (n div 2))"

text \<open>
  The statistics over the complete seconds, or over all seconds when none is complete. The
  two entries of the source that are not numbers (\<open>last_second_fps\<close>, which may be \<open>None\<close>,
  and the flag \<open>last_second_excluded\<close>) are not part of the bag.
\<close>

definition fps_overall_stats :: "real \<Rightarrow> (int \<times> bucket) list \<Rightarrow> pydict" where
  "fps_overall_stats fps_declared buckets =
     (let complete_seconds_fps = map (fps \<circ> snd) (filter (is_complete_second \<circ> snd) buckets);
          all_fps_values = map (fps \<circ> snd) buckets
      in if complete_seconds_fps \<noteq> []
         then [''declared_fps'' \<mapsto> fps_declared,
               ''mean_fps'' \<mapsto> mean complete_seconds_fps,
               ''std_fps'' \<mapsto> std complete_seconds_fps,
               ''min_fps'' \<mapsto> Min (set complete_seconds_fps),
               ''max_fps'' \<mapsto> Max (set complete_seconds_fps),
               ''median_fps'' \<mapsto> median complete_seconds_fps,
               ''complete_seconds_count'' \<mapsto> real (length complete_seconds_fps),
               ''total_seconds_count'' \<mapsto> real (length all_fps_values)]
         else if all_fps_values \<noteq> []
         then [''declared_fps'' \<mapsto> fps_declared,
               ''mean_fps'' \<mapsto> mean all_fps_values,
               ''std_fps'' \<mapsto> std all_fps_values,
               ''min_fps'' \<mapsto> Min (set all_fps_values),
               ''max_fps'' \<mapsto> Max (set all_fps_values),
               ''median_fps'' \<mapsto> median all_fps_values,
               ''complete_seconds_count'' \<mapsto> 0,
               ''total_seconds_count'' \<mapsto> real (length all_fps_values)]
         else [''declared_fps'' \<mapsto> fps_declared,
               ''mean_fps'' \<mapsto> 0.0,
               ''std_fps'' \<mapsto> 0.0,
               ''min_fps'' \<mapsto> 0.0,
               ''max_fps'' \<mapsto> 0.0,
               ''median_fps'' \<mapsto> 0.0,
               ''complete_seconds_count'' \<mapsto> 0,
               ''total_seconds_count'' \<mapsto> 0])"

record fps_dynamics =
  buckets_per_second :: "(int \<times> bucket) list"
  overall_stats :: pydict

definition analyze_fps_dynamics :: "video \<Rightarrow> py_error + fps_dynamics" where
  "analyze_fps_dynamics v =
     (case fps_loop (declared_fps v) (total_frame_count v) (frames v) [] 0 of
        Inl e \<Rightarrow> Inl e
      | Inr (frames_per_second, frame_number) \<Rightarrow>
          (let buckets = per_second_fps (declared_fps v) frame_number frames_per_second
           in Inr \<lparr> buckets_per_second = buckets,
                    overall_stats = fps_overall_stats (declared_fps v) buckets \<rparr>))"

text \<open>The part of the result the aggregator reads.\<close>

definition fps_dict :: "fps_dynamics \<Rightarrow> pydict2" where
  "fps_dict r = [''overall_stats'' \<mapsto> overall_stats r]"

section \<open>Frame dynamics (\<open>analyze_frame_dynamics\<close>, \<open>_aggregate_by_second\<close>)\<close>

text \<open>
  The entries of a frame's statistics that the aggregation reads, and the frame's number and
  timestamp.
\<close>

record frame_stats =
  brightness :: real
  contrast :: real
  frame_diff :: real
  motion_intensity :: real
  frame_number :: nat
  timestamp :: real

text \<open>
  The sampling loop of \<open>analyze_frame_dynamics\<close> (with \<open>use_gray\<close>). After a sampled frame
  whose successor's number is a multiple of 30 it prints a percentage of the declared frame
  count, which raises when that count is 0.
\<close>

fun fd_loop ::
  "real \<Rightarrow> int \<Rightarrow> int \<Rightarrow> gray list \<Rightarrow> gray option \<Rightarrow> nat \<Rightarrow> frame_stats list \<Rightarrow>
   py_error + frame_stats list" where
  "fd_loop fps_declared count_declared sample_rate [] prev_frame number frame_data =
     Inr frame_data"
| "fd_loop fps_declared count_declared sample_rate (current_frame # rest) prev_frame number
       frame_data =
     (if int number mod sample_rate \<noteq> 0
      then fd_loop fps_declared count_declared sample_rate rest prev_frame (number + 1) frame_data
      else (let st = \<lparr> brightness = np_mean current_frame,
                         contrast = std (map real current_frame),
                         frame_diff =
                           (case prev_frame of
                              None \<Rightarrow> 0.0
                            | Some prev \<Rightarrow> np_mean (absdiff prev current_frame)),
                         motion_intensity =
                           (case prev_frame of
                              None \<Rightarrow> 0.0
                            | Some prev \<Rightarrow> std (map real (absdiff prev current_frame))),
                         frame_number = number,
                         timestamp = (if fps_declared > 0 then real number / fps_declared else 0) \<rparr>
            in if (number + 1) mod 30 = 0 \<and> count_declared = 0 then Inl ZeroDivisionError
               else fd_loop fps_declared count_declared sample_rate rest (Some current_frame)
                      (number + 1) (frame_data @ [st])))"

record second_acc =
  acc_brightness :: "real list"
  acc_contrast :: "real list"
  acc_frame_diff :: "real list"
  acc_motion_intensity :: "real list"
  acc_frame_count :: nat

definition empty_acc :: second_acc where
  "empty_acc = \<lparr> acc_brightness = [], acc_contrast = [], acc_frame_diff = [],
                 acc_motion_intensity = [], acc_frame_count = 0 \<rparr>"

definition add_frame :: "frame_stats \<Rightarrow> second_acc \<Rightarrow> second_acc" where
  "add_frame f a =
     \<lparr> acc_brightness = acc_brightness a @ [brightness f],
       acc_contrast = acc_contrast a @ [contrast f],
       acc_frame_diff = acc_frame_diff a @ [frame_diff f],
       acc_motion_intensity = acc_motion_intensity a @ [motion_intensity f],
       acc_frame_count = acc_frame_count a + 1 \<rparr>"

fun accumulate_by_second :: "frame_stats list \<Rightarrow> (int \<times> second_acc) list \<Rightarrow> (int \<times> second_acc) list" where
  "accumulate_by_second [] per_second = per_second"
| "accumulate_by_second (f # rest) per_second =
     accumulate_by_second rest
       (defaultdict_update empty_acc (add_frame f) (py_int (timestamp f)) per_second)"

record second_stats =
  brightness_stats :: "real \<times> real \<times> real \<times> real"
  contrast_stats :: "real \<times> real \<times> real \<times> real"
  motion_stats :: "real \<times> real \<times> real \<times> real"
  stats_frame_count :: nat

definition stats_of :: "second_acc \<Rightarrow> second_stats" where
  "stats_of a =
     \<lparr> brightness_stats = (mean (acc_brightness a), std (acc_brightness a),
                            Min (set (acc_brightness a)), Max (set (acc_brightness a))),
       contrast_stats = (mean (acc_contrast a), std (acc_contrast a),
                          Min (set (acc_contrast a)), Max (set (acc_contrast a))),
       motion_stats = (mean (acc_motion_intensity a), Max (set (acc_motion_intensity a)),
                        mean (acc_frame_diff a), Max (set (acc_frame_diff a))),
       stats_frame_count = acc_frame_count a \<rparr>"

definition aggregate_by_second :: "frame_stats list \<Rightarrow> (int \<times> second_stats) list" where
  "aggregate_by_second frame_data =
     map (\<lambda>(second, a). (second, stats_of a)) (sorted_items (accumulate_by_second frame_data []))"

definition analyze_frame_dynamics ::
  "video \<Rightarrow> int \<Rightarrow> py_error + (frame_stats list \<times> (int \<times> second_stats) list)" where
  "analyze_frame_dynamics v sample_rate =
     (if sample_rate = 0 \<and> frames v \<noteq> [] then Inl ZeroDivisionError
      else (case fd_loop (declared_fps v) (total_frame_count v) sample_rate (frames v) None 0 [] of
              Inl e \<Rightarrow> Inl e
            | Inr frame_data \<Rightarrow> Inr (frame_data, aggregate_by_second frame_data)))"

section \<open>Batch runs\<close>

subsection \<open>\<open>video_analyser.batch_processor.BatchProcessor.process_files\<close>\<close>

text \<open>
  \<open>analyze\<close> is what \<open>self._analyze_file\<close> does with a path: a result, or the exception it
  raises. The futures complete in an order the thread pool decides: \<open>completion\<close> lists the
  positions of the submitted files in the order \<open>as_completed\<close> yields their futures, each
  position once. The loop keeps the results, the errors it logs and the calls of the
  progress callback.
\<close>

fun process_loop ::
  "(string \<Rightarrow> py_error + 'r) \<Rightarrow> string list \<Rightarrow> nat list \<Rightarrow>
   'r list \<Rightarrow> (string \<times> py_error) list \<Rightarrow> nat \<Rightarrow> (nat \<times> nat \<times> string) list \<Rightarrow>
   'r list \<times> (string \<times> py_error) list \<times> (nat \<times> nat \<times> string) list" where
  "process_loop analyze files [] results logged completed calls = (results, logged, calls)"
| "process_loop analyze files (i # rest) results logged completed calls =
     (let filepath = files ! i
      in case analyze filepath of
           Inr result \<Rightarrow>
             process_loop analyze files rest (results @ [result]) logged (completed + 1)
               (calls @ [(completed + 1, length files, filepath)])
         | Inl e \<Rightarrow>
             process_loop analyze files rest results (logged @ [(filepath, e)]) (completed + 1)
               (calls @ [(completed + 1, length files, filepath)]))"

definition process_files ::
  "(string \<Rightarrow> py_error + 'r) \<Rightarrow> string list \<Rightarrow> nat list \<Rightarrow>
   'r list \<times> (string \<times> py_error) list \<times> (nat \<times> nat \<times> string) list" where
  "process_files analyze files completion = process_loop analyze files completion [] [] 0 []"

subsection \<open>\<open>batch_analyze.analyze_video\<close> and the loop of \<open>batch_analyze.main\<close>\<close>

text \<open>
  The dictionary \<open>analyze_video\<close> returns has one of two shapes: the four analyses and the
  score, or the key \<open>error\<close>. \<open>probe\<close> stands for the construction of the analyzer (which
  raises \<open>FileNotFoundError\<close> for a missing path) and its basic analysis, \<open>open_video\<close> for
  the capture each of the three other analyses opens (\<open>ValueError\<close> when it cannot),
  \<open>detect_model\<close> for \<open>detect_model_from_filename\<close> and \<open>name\<close> for \<open>Path.name\<close>.
\<close>

record analyses =
  basic :: pydict2
  fps_dynamics_result :: fps_dynamics
  frame_dynamics_result :: "frame_stats list \<times> (int \<times> second_stats) list"
  motion_quality :: pydict2
  overall_score :: scores

datatype outcome =
    Analysed (out_filename: string) (out_filepath: string) (out_model: string) analyses
  | Failed (out_filename: string) (out_filepath: string) (out_model: string) py_error

definition run_analyses ::
  "(string \<Rightarrow> py_error + pydict2) \<Rightarrow> (string \<Rightarrow> py_error + video) \<Rightarrow>
   (gray \<Rightarrow> gray) \<Rightarrow> (gray \<Rightarrow> gray \<Rightarrow> flow) \<Rightarrow> string \<Rightarrow> py_error + analyses" where
  "run_analyses probe open_video resize farneback video_path =
     (case probe video_path of
        Inl e \<Rightarrow> Inl e
      | Inr basic_result \<Rightarrow>
     (case open_video video_path of
        Inl e \<Rightarrow> Inl e
      | Inr v \<Rightarrow>
     (case analyze_fps_dynamics v of
        Inl e \<Rightarrow> Inl e
      | Inr fps_result \<Rightarrow>
     (case analyze_frame_dynamics v 5 of
        Inl e \<Rightarrow> Inl e
      | Inr dynamics_result \<Rightarrow>
     (case analyze_motion_quality resize farneback v 5 0.98 0.95 of
        Inl e \<Rightarrow> Inl e
      | Inr motion_result \<Rightarrow>
          Inr \<lparr> basic = basic_result,
                fps_dynamics_result = fps_result,
                frame_dynamics_result = dynamics_result,
                motion_quality = motion_result,
                overall_score =
                  calculate_overall_score basic_result (fps_dict fps_result) Map.empty
                    motion_result \<rparr>)))))"

definition analyze_video ::
  "(string \<Rightarrow> string) \<Rightarrow> (string \<Rightarrow> string) \<Rightarrow> (string \<Rightarrow> py_error + analyses) \<Rightarrow> string \<Rightarrow> outcome" where
  "analyze_video name detect_model pipeline video_path =
     (case pipeline video_path of
        Inr a \<Rightarrow> Analysed (name video_path) video_path (detect_model (name video_path)) a
      | Inl e \<Rightarrow> Failed (name video_path) video_path (detect_model (name video_path)) e)"

text \<open>
  The loop of \<open>main\<close> over the video files: \<open>analyze_video\<close> catches every exception of the
  analyses itself, so the loop's own handler never runs.
\<close>

fun main_loop ::
  "(string \<Rightarrow> outcome) \<Rightarrow> string list \<Rightarrow> outcome list \<Rightarrow> nat \<Rightarrow> nat \<Rightarrow> outcome list \<times> nat \<times> nat" where
  "main_loop analyse [] results success_count error_count = (results, success_count, error_count)"
| "main_loop analyse (video_path # rest) results success_count error_count =
     main_loop analyse rest (results @ [analyse video_path]) (success_count + 1) error_count"

section \<open>Notions the properties are stated with\<close>

text \<open>
  The frames a stride keeps (those whose number is a multiple of it), the pairs of
  consecutive elements of a sequence, and the second differences of a sequence.
\<close>

definition sampled_from :: "int \<Rightarrow> nat \<Rightarrow> 'a list \<Rightarrow> 'a list" where
  "sampled_from sample_rate n fs =
     map snd (filter (\<lambda>p. int (fst p) mod sample_rate = 0) (enumerate n fs))"

definition sampled_frames :: "int \<Rightarrow> 'a list \<Rightarrow> 'a list" where
  "sampled_frames sample_rate fs = sampled_from sample_rate 0 fs"

definition pairs :: "'a list \<Rightarrow> ('a \<times> 'a) list" where
  "pairs xs = zip xs (tl xs)"

definition second_diffs :: "real list \<Rightarrow> real list" where
  "second_diffs ms =
     map (\<lambda>i. \<bar>ms ! (i + 2) - 2 * ms ! (i + 1) + ms ! i\<bar>) [0..<length ms - 2]"

definition opt_list :: "'a option \<Rightarrow> 'a list" where
  "opt_list p = (case p of None \<Rightarrow> [] | Some x \<Rightarrow> [x])"

text \<open>The value an analyzer returns under a key, if it returns and has the key.\<close>

definition result_key :: "string \<Rightarrow> py_error + pydict \<Rightarrow> real option" where
  "result_key k r = (case r of Inl e \<Rightarrow> None | Inr d \<Rightarrow> d k)"

text \<open>
  The jerkiness score in the words of the specification: the fraction of jerk samples above
  the mean jerk plus two standard deviations, weighted 50, plus the mean jerk relative to
  the mean motion, weighted 50 and taken as zero when the mean motion is zero, capped at 100.
\<close>

definition spike_ratio :: "real list \<Rightarrow> real" where
  "spike_ratio js = real (length (filter (\<lambda>j. j > mean js + 2 * std js) js)) / real (length js)"

definition spec_jerkiness :: "real list \<Rightarrow> real list \<Rightarrow> real" where
  "spec_jerkiness ms js =
     min 100 (50 * spike_ratio js + (if mean ms = 0 then 0 else 50 * mean js / mean ms))"

text \<open>
  A small clip to evaluate the analyzers on: four frames of one pixel, and a motion
  estimate whose single vector is as long as the current frame is bright.
\<close>

definition example_frames :: "gray list" where
  "example_frames = [[0], [1], [0], [1]]"

definition example_flow :: "gray \<Rightarrow> gray \<Rightarrow> flow" where
  "example_flow prev cur = [[(real (sum_list cur), 0)]]"

text \<open>Two clips at 30 frames per second: one of a single frame, one of two equal frames.\<close>

definition short_clip :: video where
  "short_clip = \<lparr> declared_fps = 30, total_frame_count = 1, width = 1, height = 1,
                  frames = [[0]], pts_ms = [0] \<rparr>"

definition still_clip :: video where
  "still_clip = \<lparr> declared_fps = 30, total_frame_count = 2, width = 1, height = 1,
                  frames = [[0], [0]], pts_ms = [0, 100 / 3] \<rparr>"






text \<open>
  A clip of four frames at 2 frames per second, and the duration of a video as
  \<open>analyze_fps_dynamics\<close> computes it (\<open>actual_duration\<close>).
\<close>

definition two_second_clip :: video where
  "two_second_clip = \<lparr> declared_fps = 2, total_frame_count = 4, width = 1, height = 1,
                        frames = [[0], [0], [0], [0]], pts_ms = [0, 500, 1000, 1500] \<rparr>"

definition video_duration :: "video \<Rightarrow> real" where
  "video_duration v =
     (if declared_fps v > 0 then real (length (frames v)) / declared_fps v else 0)"

text \<open>
  The analyzers' values for a perfect clip (30 frames in every second, no jitter, no
  duplicate, no jerk, no wobble) and the basic analysis of a clip of 1920 by 1080 pixels.
\<close>

definition perfect_fps :: pydict2 where
  "perfect_fps = [''overall_stats'' \<mapsto> [''mean_fps'' \<mapsto> 30, ''std_fps'' \<mapsto> 0]]"

definition perfect_motion :: pydict2 where
  "perfect_motion =
     [''effective_fps_pts_jitter'' \<mapsto> [''jitter_percentage'' \<mapsto> 0],
      ''duplicate_frame_ratio'' \<mapsto> [''total_duplicate_ratio'' \<mapsto> 0],
      ''motion_continuity'' \<mapsto> [''jerkiness_score'' \<mapsto> 0, ''motion_continuity_score'' \<mapsto> 100],
      ''wobble_distortion'' \<mapsto> [''wobble_distortion_score'' \<mapsto> 0]]"

definition full_hd :: pydict2 where
  "full_hd = [''resolution'' \<mapsto> [''width'' \<mapsto> 1920, ''height'' \<mapsto> 1080]]"

text \<open>
  A file system with one missing file: every other path opens as the clip of two equal
  frames, 1 pixel wide and high. A batch of three paths, an analysis that returns the path
  of a file it can read, and the pipeline of \<open>analyze_video\<close> over that file system.
\<close>

definition example_probe :: "string \<Rightarrow> py_error + pydict2" where
  "example_probe video_path =
     (if video_path = ''missing.mp4'' then Inl FileNotFoundError
      else Inr [''resolution'' \<mapsto> [''width'' \<mapsto> 1, ''height'' \<mapsto> 1]])"

definition example_open :: "string \<Rightarrow> py_error + video" where
  "example_open video_path =
     (if video_path = ''missing.mp4'' then Inl ValueError else Inr still_clip)"

definition example_files :: "string list" where
  "example_files = [''a.mp4'', ''missing.mp4'', ''b.mp4'']"

definition example_analyze :: "string \<Rightarrow> py_error + string" where
  "example_analyze video_path =
     (if video_path = ''missing.mp4'' then Inl FileNotFoundError else Inr video_path)"

definition example_pipeline :: "string \<Rightarrow> py_error + analyses" where
  "example_pipeline = run_analyses example_probe example_open id example_flow"

text \<open>
  The ranges in which the analyzers hand their values to the aggregator, and the ranges of
  the scores it returns.
\<close>

definition analyzer_ranges :: "pydict2 \<Rightarrow> pydict2 \<Rightarrow> bool" where
  "analyzer_ranges fpsd motion \<longleftrightarrow>
     (\<forall>st. fpsd ''overall_stats'' = Some st \<longrightarrow> 0 \<le> dict_get st ''std_fps'' 0) \<and>
     (\<forall>d. motion ''effective_fps_pts_jitter'' = Some d \<longrightarrow> 0 \<le> dict_get d ''jitter_percentage'' 100) \<and>
     (\<forall>d. motion ''duplicate_frame_ratio'' = Some d \<longrightarrow> 0 \<le> dict_get d ''total_duplicate_ratio'' 1) \<and>
     (\<forall>d. motion ''motion_continuity'' = Some d \<longrightarrow>
          0 \<le> dict_get d ''motion_continuity_score'' 0 \<and> dict_get d ''motion_continuity_score'' 0 \<le> 100) \<and>
     (\<forall>d. motion ''wobble_distortion'' = Some d \<longrightarrow> 0 \<le> dict_get d ''wobble_distortion_score'' 100)"

definition scores_in_range :: "scores \<Rightarrow> bool" where
  "scores_in_range s \<longleftrightarrow>
     0 \<le> fps_stability s \<and> fps_stability s \<le> 25 \<and>
     0 \<le> pts_jitter s \<and> pts_jitter s \<le> 15 \<and>
     0 \<le> duplicate_frames s \<and> duplicate_frames s \<le> 15 \<and>
     0 \<le> motion_continuity s \<and> motion_continuity s \<le> 25 \<and>
     0 \<le> wobble s \<and> wobble s \<le> 10 \<and>
     0 \<le> quality s \<and> quality s \<le> 10 \<and>
     total_score s = fps_stability s + pts_jitter s + duplicate_frames s +
                     motion_continuity s + wobble s + quality s \<and>
     0 \<le> total_score s \<and> total_score s \<le> 100"

section \<open>Properties of the numerics\<close>

lemma round_half_even_of_int: "round_half_even (real_of_int k) = k"
  by (simp add: round_half_even_def)

lemma round_half_even_bounds:
  assumes "real_of_int a \<le> y" "y \<le> real_of_int b"
  shows "a \<le> round_half_even y \<and> round_half_even y \<le> b"
proof -
  have fa: "a \<le> \<lfloor>y\<rfloor>" using assms(1) by (simp add: le_floor_iff)
  have fb: "\<lfloor>y\<rfloor> \<le> b" using assms(2) by (simp add: floor_le_iff) 
  have up: "\<lfloor>y\<rfloor> + 1 \<le> b" if "real_of_int \<lfloor>y\<rfloor> < y"
  proof -
    from that assms(2) have "real_of_int \<lfloor>y\<rfloor> < real_of_int b" by linarith
    then show ?thesis by simp
  qed
  show ?thesis
    unfolding round_half_even_def Let_def using fa fb up by auto
qed

lemma py_round2_cents: "py_round2 (real_of_int k / 100) = real_of_int k / 100"
  by (simp add: py_round2_def round_half_even_of_int)

lemma py_round2_bounds:
  assumes "real_of_int a / 100 \<le> x" "x \<le> real_of_int b / 100"
  shows "real_of_int a / 100 \<le> py_round2 x \<and> py_round2 x \<le> real_of_int b / 100"
proof -
  have "real_of_int a \<le> x * 100" "x * 100 \<le> real_of_int b" using assms by auto
  from round_half_even_bounds[OF this] show ?thesis
    by (simp add: py_round2_def divide_le_cancel)
qed

lemma py_round2_range:
  assumes "0 \<le> x" "x \<le> real_of_int c"
  shows "0 \<le> py_round2 x \<and> py_round2 x \<le> real_of_int c"
  using py_round2_bounds[of 0 x "c * 100"] assms by simp

lemma py_round2_is_cents: "\<exists>k. py_round2 x = real_of_int k / 100"
  by (auto simp: py_round2_def)

lemma fps_stability_range:
  assumes "\<And>st. fpsd ''overall_stats'' = Some st \<Longrightarrow> 0 \<le> dict_get st ''std_fps'' 0"
  shows "0 \<le> fps_stability_of fpsd \<and> fps_stability_of fpsd \<le> 25"
proof (cases "fpsd ''overall_stats''")
  case None
  then show ?thesis by (simp add: fps_stability_of_def)
next
  case (Some st)
  let ?cv = "if dict_get st ''mean_fps'' 0 > 0
             then dict_get st ''std_fps'' 0 / dict_get st ''mean_fps'' 1 * 100 else 100"
  have pos: "dict_get st ''mean_fps'' 0 > 0 \<Longrightarrow> dict_get st ''mean_fps'' 1 > 0"
    by (auto simp: dict_get_def split: option.splits)
  have "0 \<le> ?cv" using assms[OF Some] pos by auto
  then have "0 \<le> max 0 (25 - ?cv * 0.5)" "max 0 (25 - ?cv * 0.5) \<le> real_of_int 25" by auto
  from py_round2_range[OF this] show ?thesis
    using Some by (simp add: fps_stability_of_def Let_def)
qed

lemma pts_jitter_range:
  assumes "\<And>d. motion ''effective_fps_pts_jitter'' = Some d \<Longrightarrow> 0 \<le> dict_get d ''jitter_percentage'' 100"
  shows "0 \<le> pts_jitter_of motion \<and> pts_jitter_of motion \<le> 15"
proof (cases "motion ''effective_fps_pts_jitter''")
  case None
  then show ?thesis by (simp add: pts_jitter_of_def)
next
  case (Some d)
  let ?j = "dict_get d ''jitter_percentage'' 100"
  have "0 \<le> max 0 (15 - ?j * 0.3)" "max 0 (15 - ?j * 0.3) \<le> real_of_int 15"
    using assms[OF Some] by auto
  from py_round2_range[OF this] show ?thesis
    using Some by (simp add: pts_jitter_of_def Let_def)
qed

lemma duplicate_frames_range:
  assumes "\<And>d. motion ''duplicate_frame_ratio'' = Some d \<Longrightarrow> 0 \<le> dict_get d ''total_duplicate_ratio'' 1"
  shows "0 \<le> duplicate_frames_of motion \<and> duplicate_frames_of motion \<le> 15"
proof (cases "motion ''duplicate_frame_ratio''")
  case None
  then show ?thesis by (simp add: duplicate_frames_of_def)
next
  case (Some d)
  let ?j = "dict_get d ''total_duplicate_ratio'' 1 * 100"
  have "0 \<le> max 0 (15 - ?j * 3)" "max 0 (15 - ?j * 3) \<le> real_of_int 15"
    using assms[OF Some] by auto
  from py_round2_range[OF this] show ?thesis
    using Some by (simp add: duplicate_frames_of_def Let_def)
qed

lemma motion_continuity_range:
  assumes "\<And>d. motion ''motion_continuity'' = Some d \<Longrightarrow>
             0 \<le> dict_get d ''motion_continuity_score'' 0 \<and> dict_get d ''motion_continuity_score'' 0 \<le> 100"
  shows "0 \<le> motion_continuity_of motion \<and> motion_continuity_of motion \<le> 25"
proof (cases "motion ''motion_continuity''")
  case None
  then show ?thesis by (simp add: motion_continuity_of_def)
next
  case (Some d)
  let ?j = "dict_get d ''motion_continuity_score'' 0 * 0.25"
  have "0 \<le> ?j" "?j \<le> real_of_int 25"
    using assms[OF Some] by auto
  from py_round2_range[OF this] show ?thesis
    using Some by (simp add: motion_continuity_of_def Let_def)
qed

lemma wobble_range:
  assumes "\<And>d. motion ''wobble_distortion'' = Some d \<Longrightarrow> 0 \<le> dict_get d ''wobble_distortion_score'' 100"
  shows "0 \<le> wobble_of motion \<and> wobble_of motion \<le> 10"
proof (cases "motion ''wobble_distortion''")
  case None
  then show ?thesis by (simp add: wobble_of_def)
next
  case (Some d)
  let ?j = "dict_get d ''wobble_distortion_score'' 100"
  have "0 \<le> max 0 (10 - ?j * 0.1)" "max 0 (10 - ?j * 0.1) \<le> real_of_int 10"
    using assms[OF Some] by auto
  from py_round2_range[OF this] show ?thesis
    using Some by (simp add: wobble_of_def Let_def)
qed

lemma quality_range: "0 \<le> quality_of bas \<and> quality_of bas \<le> 10"
  by (simp add: quality_of_def Let_def split: option.splits)

lemma cents_case:
  "\<exists>k. (case opt of None \<Rightarrow> 0 | Some d \<Rightarrow> py_round2 (g d)) = real_of_int k / 100"
proof (cases opt)
  case None
  have "(0::real) = real_of_int 0 / 100" by simp
  then show ?thesis unfolding None option.case by (rule exI)
next
  case (Some d)
  show ?thesis unfolding Some option.case by (rule py_round2_is_cents)
qed

lemma fps_stability_cents: "\<exists>k. fps_stability_of f = real_of_int k / 100"
  unfolding fps_stability_of_def Let_def by (rule cents_case)

lemma pts_jitter_cents: "\<exists>k. pts_jitter_of m = real_of_int k / 100"
  unfolding pts_jitter_of_def Let_def by (rule cents_case)

lemma duplicate_frames_cents: "\<exists>k. duplicate_frames_of m = real_of_int k / 100"
  unfolding duplicate_frames_of_def Let_def by (rule cents_case)

lemma motion_continuity_cents: "\<exists>k. motion_continuity_of m = real_of_int k / 100"
  unfolding motion_continuity_of_def Let_def by (rule cents_case)

lemma wobble_cents: "\<exists>k. wobble_of m = real_of_int k / 100"
  unfolding wobble_of_def Let_def by (rule cents_case)

lemma quality_values: "quality_of b \<in> {0, 3, 5, 8, 10}"
  by (simp add: quality_of_def Let_def split: option.splits)

lemma quality_cents: "\<exists>k. quality_of b = real_of_int k / 100"
proof -
  have "quality_of b = real_of_int 0 / 100 \<or> quality_of b = real_of_int 300 / 100 \<or>
        quality_of b = real_of_int 500 / 100 \<or> quality_of b = real_of_int 800 / 100 \<or>
        quality_of b = real_of_int 1000 / 100"
    using quality_values[of b] by auto
  then show ?thesis by blast
qed

lemma total_is_sum:
  "py_round2 (fps_stability_of f + pts_jitter_of m + duplicate_frames_of m +
     motion_continuity_of m + wobble_of m + quality_of b) =
   fps_stability_of f + pts_jitter_of m + duplicate_frames_of m +
     motion_continuity_of m + wobble_of m + quality_of b"
proof -
  obtain k1 k2 k3 k4 k5 k6 where k:
    "fps_stability_of f = real_of_int k1 / 100" "pts_jitter_of m = real_of_int k2 / 100"
    "duplicate_frames_of m = real_of_int k3 / 100" "motion_continuity_of m = real_of_int k4 / 100"
    "wobble_of m = real_of_int k5 / 100" "quality_of b = real_of_int k6 / 100"
    using fps_stability_cents[of f] pts_jitter_cents[of m] duplicate_frames_cents[of m]
      motion_continuity_cents[of m] wobble_cents[of m] quality_cents[of b] by blast
  have "fps_stability_of f + pts_jitter_of m + duplicate_frames_of m +
     motion_continuity_of m + wobble_of m + quality_of b = real_of_int (k1 + k2 + k3 + k4 + k5 + k6) / 100"
    unfolding k by (simp add: add_divide_distrib)
  then show ?thesis by (simp only: py_round2_cents)
qed

section \<open>Properties of the aggregator\<close>

lemma aggregator_ranges:
  assumes "analyzer_ranges fpsd motion"
  shows "scores_in_range (calculate_overall_score b fpsd dyn motion)"
proof -
  note r = fps_stability_range[of fpsd] pts_jitter_range[of motion] duplicate_frames_range[of motion]
    motion_continuity_range[of motion] wobble_range[of motion] quality_range[of b]
  have a: "0 \<le> fps_stability_of fpsd \<and> fps_stability_of fpsd \<le> 25"
    using assms by (intro r) (simp add: analyzer_ranges_def)
  have b: "0 \<le> pts_jitter_of motion \<and> pts_jitter_of motion \<le> 15"
    using assms by (intro r) (simp add: analyzer_ranges_def)
  have c: "0 \<le> duplicate_frames_of motion \<and> duplicate_frames_of motion \<le> 15"
    using assms by (intro r) (simp add: analyzer_ranges_def)
  have d: "0 \<le> motion_continuity_of motion \<and> motion_continuity_of motion \<le> 25"
    using assms by (intro r) (simp add: analyzer_ranges_def)
  have e: "0 \<le> wobble_of motion \<and> wobble_of motion \<le> 10"
    using assms by (intro r) (simp add: analyzer_ranges_def)
  show ?thesis
    unfolding scores_in_range_def calculate_overall_score_def Let_def
    using a b c d e quality_range[of b] by (simp add: total_is_sum)
qed

section \<open>Properties of the pairwise metrics and the duplicate classifier\<close>



lemma sum_list_zeros: "sum_list (map (\<lambda>_. 0::real) g) = 0"
  by (induction g) auto




lemma var_nonneg: "0 \<le> var xs"
  unfolding var_def mean_def by (intro divide_nonneg_nonneg sum_list_nonneg) auto













section \<open>Properties of the sampling loops\<close>

lemma sampled_from_Nil [simp]: "sampled_from sr n [] = []"
  by (simp add: sampled_from_def)

lemma sampled_from_Cons:
  "sampled_from sr n (x # xs) =
     (if int n mod sr = 0 then x # sampled_from sr (Suc n) xs else sampled_from sr (Suc n) xs)"
  by (simp add: sampled_from_def)

lemma pairs_simps [simp]:
  "pairs [] = []" "pairs [x] = []" "pairs (x # y # zs) = (x, y) # pairs (y # zs)"
  by (simp_all add: pairs_def)

lemma length_pairs: "length (pairs xs) = length xs - 1"
  by (simp add: pairs_def)

lemma mc_loop_magnitudes:
  "fst (mc_loop fb sr fs prev mm jv n ac) =
     mm @ map (\<lambda>p. mean_flow_magnitude (fb (fst p) (snd p))) (pairs (opt_list prev @ sampled_from sr n fs))"
proof (induction fs arbitrary: prev mm jv n ac)
  case Nil
  then show ?case by (cases prev) (simp_all add: opt_list_def)
next
  case (Cons x xs)
  show ?case
  proof (cases "int n mod sr = 0")
    case False
    then show ?thesis by (simp add: sampled_from_Cons Cons.IH)
  next
    case True
    then show ?thesis
      by (cases prev) (simp_all add: sampled_from_Cons Cons.IH opt_list_def)
  qed
qed

lemma second_diffs_snoc:
  "second_diffs (ms @ [m]) =
     second_diffs ms @
     (if length ms \<ge> 2 then [\<bar>m - 2 * ms ! (length ms - 1) + ms ! (length ms - 2)\<bar>] else [])"
proof (cases "length ms \<ge> 2")
  case False
  then show ?thesis by (simp add: second_diffs_def)
next
  case True
  then obtain k where k: "length ms = Suc (Suc k)"
    by (metis Suc_le_D numeral_2_eq_2 Suc_le_mono)
  have "map (\<lambda>i. \<bar>(ms @ [m]) ! (i + 2) - 2 * (ms @ [m]) ! (i + 1) + (ms @ [m]) ! i\<bar>) [0..<k]
        = map (\<lambda>i. \<bar>ms ! (i + 2) - 2 * ms ! (i + 1) + ms ! i\<bar>) [0..<k]"
    by (rule map_cong) (auto simp: nth_append k)
  then show ?thesis
    using True by (simp add: second_diffs_def k nth_append)
qed

lemma mc_loop_jerks:
  "jv = second_diffs mm \<Longrightarrow>
   snd (mc_loop fb sr fs prev mm jv n ac) = second_diffs (fst (mc_loop fb sr fs prev mm jv n ac))"
proof (induction fs arbitrary: prev mm jv n ac)
  case Nil
  then show ?case by simp
next
  case (Cons x xs)
  show ?case
  proof (cases "int n mod sr = 0")
    case False
    then show ?thesis using Cons.prems by (simp add: Cons.IH)
  next
    case True
    show ?thesis
    proof (cases prev)
      case None
      then show ?thesis using True Cons.prems by (simp add: Cons.IH)
    next
      case (Some p)
      let ?m = "mean_flow_magnitude (fb p x)"
      let ?jv = "(let ms = mm @ [?m]; n = length ms
                   in if n \<ge> 3
                      then jv @ [\<bar>ms ! (n - 1) - 2 * ms ! (n - 2) + ms ! (n - 3)\<bar>]
                      else jv)"
      have "?jv = second_diffs (mm @ [?m])"
        using Cons.prems by (auto simp: second_diffs_snoc Let_def nth_append)
      from Cons.IH[OF this] show ?thesis using True Some by simp
    qed
  qed
qed

lemma sum_list_nonneg_real: "(\<And>x. x \<in> set xs \<Longrightarrow> 0 \<le> x) \<Longrightarrow> 0 \<le> sum_list (xs :: real list)"
  by (rule sum_list_nonneg)

lemma mean_nonneg: "(\<And>x. x \<in> set xs \<Longrightarrow> 0 \<le> x) \<Longrightarrow> 0 \<le> mean xs"
  unfolding mean_def by (intro divide_nonneg_nonneg sum_list_nonneg) auto

lemma mean_flow_magnitude_nonneg: "0 \<le> mean_flow_magnitude fl"
  unfolding mean_flow_magnitude_def by (rule mean_nonneg) (auto simp: magnitude_def)

lemma mean_zero_all_zero:
  assumes "\<And>x. x \<in> set xs \<Longrightarrow> 0 \<le> x" "mean xs = 0" "x \<in> set xs"
  shows "x = (0::real)"
proof -
  have "xs \<noteq> []" using assms(3) by auto
  then have "sum_list xs = 0" using assms(2) by (simp add: mean_def)
  then show ?thesis using assms(1,3) by (simp add: sum_list_nonneg_eq_0_iff)
qed

lemma second_diffs_zero:
  assumes "\<And>x. x \<in> set ms \<Longrightarrow> x = 0" "j \<in> set (second_diffs ms)"
  shows "j = 0"
proof -
  from assms(2) obtain i where i: "i < length ms - 2" "j = \<bar>ms ! (i + 2) - 2 * ms ! (i + 1) + ms ! i\<bar>"
    by (auto simp: second_diffs_def)
  then have "ms ! (i + 2) = 0" "ms ! (i + 1) = 0" "ms ! i = 0"
    using assms(1) by (simp_all add: nth_mem)
  with i show ?thesis by simp
qed

lemma mc_loop_result:
  "mc_loop fb sr fs None [] [] 0 0 =
     (map (\<lambda>p. mean_flow_magnitude (fb (fst p) (snd p))) (pairs (sampled_frames sr fs)),
      second_diffs (map (\<lambda>p. mean_flow_magnitude (fb (fst p) (snd p))) (pairs (sampled_frames sr fs))))"
proof -
  have j: "[] = second_diffs []" by (simp add: second_diffs_def)
  have "fst (mc_loop fb sr fs None [] [] 0 0) =
          map (\<lambda>p. mean_flow_magnitude (fb (fst p) (snd p))) (pairs (sampled_frames sr fs))"
    by (simp add: mc_loop_magnitudes opt_list_def sampled_frames_def)
  moreover have "snd (mc_loop fb sr fs None [] [] 0 0) = second_diffs (fst (mc_loop fb sr fs None [] [] 0 0))"
    by (rule mc_loop_jerks[OF j])
  ultimately show ?thesis by (simp add: prod_eq_iff)
qed

lemma second_diffs_nonempty: "second_diffs ms \<noteq> [] \<Longrightarrow> ms \<noteq> []"
  by (auto simp: second_diffs_def)

lemma var_zeros:
  assumes "\<And>x. x \<in> set xs \<Longrightarrow> x = 0"
  shows "var xs = 0"
proof -
  have s: "sum_list xs = 0" using assms by (induction xs) auto
  then have m: "mean xs = 0" by (simp add: mean_def)
  have "(\<Sum>x\<leftarrow>xs. (x - 0)\<^sup>2) = 0" using assms by (induction xs) auto
  then show ?thesis unfolding var_def m by (simp add: mean_def)
qed

lemma jerkiness_spec:
  assumes nonneg: "\<And>m. m \<in> set ms \<Longrightarrow> 0 \<le> m" and js: "js = second_diffs ms" and ne: "js \<noteq> []"
  shows "jerkiness (mean ms) js = (mean js, spike_ratio js, spec_jerkiness ms js)"
proof (cases "mean ms > 0")
  case True
  then have "mean ms \<noteq> 0" by simp
  then show ?thesis using ne True
    unfolding jerkiness_def spec_jerkiness_def spike_ratio_def Let_def
    by (simp add: algebra_simps)
next
  case False
  have "0 \<le> mean ms" by (rule mean_nonneg) (rule nonneg)
  with False have z: "mean ms = 0" by simp
  have allz: "\<And>m. m \<in> set ms \<Longrightarrow> m = 0"
    by (rule mean_zero_all_zero[OF nonneg z])
  have jz: "\<And>j. j \<in> set js \<Longrightarrow> j = 0"
    unfolding js by (rule second_diffs_zero[OF allz])
  have "sum_list js = 0" using jz by (induction js) auto
  then have mj: "mean js = 0" by (simp add: mean_def)
  have sj: "std js = 0" by (simp add: std_def var_zeros[OF jz])
  have fe: "filter (\<lambda>j. j > mean js + 2 * std js) js = []"
    using jz by (auto simp: mj sj filter_empty_conv)
  then have sr: "spike_ratio js = 0" by (simp add: spike_ratio_def)
  have jk: "jerkiness (mean ms) js = (mean js, spike_ratio js, 0)"
    using ne by (simp add: z jerkiness_def Let_def spike_ratio_def)
  have sp: "spec_jerkiness ms js = 0"
    by (simp add: spec_jerkiness_def z sr)
  show ?thesis by (simp only: jk sp)
qed

lemma analyze_motion_continuity_result:
  "sr \<noteq> 0 \<Longrightarrow>
   analyze_motion_continuity fb fs sr =
     Inr (motion_continuity_result
            (map (\<lambda>p. mean_flow_magnitude (fb (fst p) (snd p))) (pairs (sampled_frames sr fs)))
            (second_diffs (map (\<lambda>p. mean_flow_magnitude (fb (fst p) (snd p)))
               (pairs (sampled_frames sr fs)))))"
  by (simp add: analyze_motion_continuity_def mc_loop_result)

lemma analyze_duplicate_frames_returns:
  "sr \<noteq> 0 \<Longrightarrow> \<exists>dd. analyze_duplicate_frames resize fs sr dt st = Inr dd"
  by (simp add: analyze_duplicate_frames_def Let_def split: prod.splits)

lemma analyze_motion_quality_entries:
  assumes "sr \<noteq> 0"
  shows "\<exists>motion dd.
           analyze_motion_quality resize fb v sr dt st = Inr motion \<and>
           analyze_duplicate_frames resize (frames v) sr dt st = Inr dd \<and>
           motion ''effective_fps_pts_jitter'' = Some (analyze_pts_jitter (pts_ms v) (declared_fps v)) \<and>
           motion ''duplicate_frame_ratio'' = Some dd \<and>
           analyze_motion_continuity fb (frames v) sr = Inr (the (motion ''motion_continuity'')) \<and>
           motion ''motion_continuity'' \<noteq> None \<and>
           motion ''wobble_distortion'' =
             Some (wobble_dict (wobble_result (wobble_loop fb sr (frames v) None [] 0 0)))"
proof -
  obtain dd where dd: "analyze_duplicate_frames resize (frames v) sr dt st = Inr dd"
    using analyze_duplicate_frames_returns[OF assms] by blast
  show ?thesis
    using assms
    by (simp add: analyze_motion_quality_def Let_def dd analyze_motion_continuity_result
        analyze_wobble_distortion_def)
qed

lemma motion_continuity_result_short:
  "motion_continuity_result [] js ''jerkiness_score'' = Some 0"
  "motion_continuity_result [] js ''motion_continuity_score'' = None"
  by (simp_all add: motion_continuity_result_def)

lemma motion_continuity_result_long:
  "ms \<noteq> [] \<Longrightarrow> motion_continuity_result ms js ''jerkiness_score'' = Some j \<Longrightarrow>
   motion_continuity_result ms js ''motion_continuity_score'' = Some (100 - j)"
  by (auto simp: motion_continuity_result_def Let_def split: prod.splits)

lemma py_round2_25: "py_round2 25 = 25"
  using py_round2_cents[of 2500] by simp

lemma pairs_empty_iff: "pairs xs = [] \<longleftrightarrow> length xs < 2"
  by (cases xs; cases "tl xs") (auto simp: pairs_def)

section \<open>Motion continuity: the claims\<close>

text \<open>
  Claim C5. Whenever the sampled frames give at least one jerk sample, the analyzer returns,
  and its jerkiness score is min(100, 50 * spike_ratio + 50 * mean_jerk / mean_motion), the
  spike ratio being the fraction of jerk samples strictly above the mean jerk plus two
  standard deviations, and the second term being zero when the mean motion magnitude is
  zero; the continuity score is 100 minus the jerkiness score. The magnitudes are those of
  the motion fields of consecutive sampled frames, the jerk samples their second
  differences. (In the code the guard for a zero mean motion covers the whole sum; the
  magnitudes are not negative, so a zero mean makes every magnitude and every jerk sample
  zero, and the spike ratio with them.)
\<close>

theorem jerkiness_formula:
  fixes fb :: "gray \<Rightarrow> gray \<Rightarrow> flow" and sr :: int and fs :: "gray list"
  defines "ms \<equiv> map (\<lambda>p. mean_flow_magnitude (fb (fst p) (snd p))) (pairs (sampled_frames sr fs))"
  defines "js \<equiv> second_diffs ms"
  defines "r \<equiv> analyze_motion_continuity fb fs sr"
  assumes "sr \<noteq> 0" and "js \<noteq> []"
  shows "result_key ''jerkiness_score'' r = Some (spec_jerkiness ms js) \<and>
         result_key ''motion_continuity_score'' r = Some (100 - spec_jerkiness ms js) \<and>
         result_key ''mean_jerk'' r = Some (mean js) \<and>
         result_key ''jerk_peak_ratio'' r = Some (spike_ratio js) \<and>
         result_key ''mean_motion_magnitude'' r = Some (mean ms)"
proof -
  have nonneg: "\<And>m. m \<in> set ms \<Longrightarrow> 0 \<le> m"
    by (auto simp: ms_def mean_flow_magnitude_nonneg)
  have ne: "ms \<noteq> []" using assms(5) unfolding js_def by (rule second_diffs_nonempty)
  have jseq: "js = second_diffs ms" by (simp add: js_def)
  have j: "jerkiness (mean ms) js = (mean js, spike_ratio js, spec_jerkiness ms js)"
    by (rule jerkiness_spec[OF nonneg jseq assms(5)])
  have "r = Inr (motion_continuity_result ms js)"
    using assms(4) by (simp add: r_def analyze_motion_continuity_def mc_loop_result ms_def js_def)
  then show ?thesis using ne
    by (simp add: result_key_def motion_continuity_result_def Let_def j)
qed

theorem jerkiness_formula_witness:
  "(1::int) \<noteq> 0 \<and>
   second_diffs (map (\<lambda>p. mean_flow_magnitude (example_flow (fst p) (snd p)))
                  (pairs (sampled_frames 1 example_frames))) \<noteq> [] \<and>
   result_key ''jerkiness_score'' (analyze_motion_continuity example_flow example_frames 1)
     = Some 100 \<and>
   result_key ''motion_continuity_score'' (analyze_motion_continuity example_flow example_frames 1)
     = Some 0"
proof -
  have ms: "map (\<lambda>p. mean_flow_magnitude (example_flow (fst p) (snd p)))
              (pairs (sampled_frames 1 example_frames)) = [1, 0, 1]"
    by (simp add: sampled_frames_def sampled_from_Cons example_frames_def
        mean_flow_magnitude_def example_flow_def mean_def magnitude_def)
  have js: "second_diffs [1, 0, 1] = [2]"
    by (simp add: second_diffs_def)
  have sj: "spec_jerkiness [1, 0, 1] [2] = 100"
    by (simp add: spec_jerkiness_def spike_ratio_def mean_def std_def var_def)
  have h1: "(1::int) \<noteq> 0"
    by simp
  have h2: "second_diffs (map (\<lambda>p. mean_flow_magnitude (example_flow (fst p) (snd p)))
              (pairs (sampled_frames 1 example_frames))) \<noteq> []"
    unfolding ms js by simp
  from jerkiness_formula [where fb = example_flow and sr = 1 and fs = example_frames, OF h1 h2]
  have "result_key ''jerkiness_score'' (analyze_motion_continuity example_flow example_frames 1)
          = Some 100 \<and>
        result_key ''motion_continuity_score''
          (analyze_motion_continuity example_flow example_frames 1) = Some 0"
    unfolding ms js sj by simp
  with h1 h2 show ?thesis by blast
qed

text \<open>
  Claim C10. With a stride other than zero the motion continuity analyzer returns. For a
  video with fewer than two sampled frames its result has \<open>jerkiness_score\<close> 0 and no key
  \<open>motion_continuity_score\<close>, and the aggregator gives the clip a motion-continuity
  sub-score of 0; for a video with at least two sampled frames and a jerkiness score of 0
  the sub-score is 25.
\<close>

theorem short_clip_continuity:
  fixes fb :: "gray \<Rightarrow> gray \<Rightarrow> flow" and v :: video and sr :: int
    and resize :: "gray \<Rightarrow> gray" and dt st :: real
  defines "r \<equiv> analyze_motion_continuity fb (frames v) sr"
  defines "m \<equiv> analyze_motion_quality resize fb v sr dt st"
  assumes "sr \<noteq> 0"
  shows "(length (sampled_frames sr (frames v)) < 2 \<longrightarrow>
            result_key ''jerkiness_score'' r = Some 0 \<and>
            (\<exists>d. r = Inr d \<and> ''motion_continuity_score'' \<notin> dom d) \<and>
            (\<exists>motion. m = Inr motion \<and>
               motion_continuity (calculate_overall_score bas fpsd dyn motion) = 0)) \<and>
         (length (sampled_frames sr (frames v)) \<ge> 2 \<and> result_key ''jerkiness_score'' r = Some 0 \<longrightarrow>
            (\<exists>motion. m = Inr motion \<and>
               motion_continuity (calculate_overall_score bas fpsd dyn motion) = 25))"
proof -
  let ?ms = "map (\<lambda>p. mean_flow_magnitude (fb (fst p) (snd p))) (pairs (sampled_frames sr (frames v)))"
  let ?d = "motion_continuity_result ?ms (second_diffs ?ms)"
  have r: "r = Inr ?d"
    unfolding r_def by (rule analyze_motion_continuity_result[OF assms(3)])
  obtain motion where mo: "m = Inr motion" "motion ''motion_continuity'' = Some ?d"
    using analyze_motion_quality_entries[OF assms(3), of resize fb v dt st] r
    unfolding m_def r_def by auto
  have sub: "motion_continuity (calculate_overall_score bas fpsd dyn motion) =
               py_round2 (dict_get ?d ''motion_continuity_score'' 0 * 0.25)"
    by (simp add: calculate_overall_score_def Let_def motion_continuity_of_def mo(2))
  have short: ?thesis if "length (sampled_frames sr (frames v)) < 2"
  proof -
    have e: "?ms = []" using that by (simp add: pairs_empty_iff)
    have z: "py_round2 0 = 0" using py_round2_cents[of 0] by simp
    have s0: "motion_continuity (calculate_overall_score bas fpsd dyn motion) = 0"
      unfolding sub e by (simp add: motion_continuity_result_short dict_get_def z)
    have "result_key ''jerkiness_score'' r = Some 0"
      unfolding r e by (simp add: result_key_def motion_continuity_result_short)
    moreover have "\<exists>d. r = Inr d \<and> ''motion_continuity_score'' \<notin> dom d"
      unfolding r e by (simp add: motion_continuity_result_short domIff)
    ultimately show ?thesis
      using that mo(1) s0 by auto
  qed
  have long: ?thesis if "length (sampled_frames sr (frames v)) \<ge> 2"
  proof -
    have ne: "?ms \<noteq> []" using that by (simp add: pairs_empty_iff)
    have "motion_continuity (calculate_overall_score bas fpsd dyn motion) = 25"
      if "result_key ''jerkiness_score'' r = Some 0"
    proof -
      from that have "?d ''jerkiness_score'' = Some 0" by (simp add: r result_key_def)
      from motion_continuity_result_long[OF ne this]
      show ?thesis unfolding sub by (simp add: dict_get_def py_round2_25)
    qed
    then show ?thesis using that mo(1) by auto
  qed
  show ?thesis
  proof (cases "length (sampled_frames sr (frames v)) < 2")
    case True
    then show ?thesis by (rule short)
  next
    case False
    then have "length (sampled_frames sr (frames v)) \<ge> 2" by simp
    then show ?thesis by (rule long)
  qed
qed

theorem short_clip_continuity_witness:
  "(5::int) \<noteq> 0 \<and> (1::int) \<noteq> 0 \<and>
   length (sampled_frames 5 (frames short_clip)) < 2 \<and>
   result_key ''jerkiness_score'' (analyze_motion_continuity example_flow (frames short_clip) 5)
     = Some 0 \<and>
   (\<exists>motion. analyze_motion_quality id example_flow short_clip 5 0.98 0.95 = Inr motion \<and>
      motion_continuity (calculate_overall_score Map.empty Map.empty Map.empty motion) = 0) \<and>
   length (sampled_frames 1 (frames still_clip)) \<ge> 2 \<and>
   result_key ''jerkiness_score'' (analyze_motion_continuity example_flow (frames still_clip) 1)
     = Some 0 \<and>
   (\<exists>motion. analyze_motion_quality id example_flow still_clip 1 0.98 0.95 = Inr motion \<and>
      motion_continuity (calculate_overall_score Map.empty Map.empty Map.empty motion) = 25)"
proof -
  have h5: "(5::int) \<noteq> 0" and h1: "(1::int) \<noteq> 0"
    by simp_all
  have a: "length (sampled_frames 5 (frames short_clip)) < 2"
    by (simp add: short_clip_def sampled_frames_def sampled_from_Cons)
  have b: "length (sampled_frames 1 (frames still_clip)) \<ge> 2"
    by (simp add: still_clip_def sampled_frames_def sampled_from_Cons)
  have c: "result_key ''jerkiness_score''
             (analyze_motion_continuity example_flow (frames still_clip) 1) = Some 0"
    by (simp add: analyze_motion_continuity_result still_clip_def sampled_frames_def
        sampled_from_Cons result_key_def motion_continuity_result_def second_diffs_def
        jerkiness_def Let_def)
  from short_clip_continuity [where fb = example_flow and v = short_clip and sr = 5
      and resize = id and dt = "0.98" and st = "0.95" and bas = Map.empty and fpsd = Map.empty
      and dyn = Map.empty, OF h5] a
  have s: "result_key ''jerkiness_score''
             (analyze_motion_continuity example_flow (frames short_clip) 5) = Some 0 \<and>
           (\<exists>motion. analyze_motion_quality id example_flow short_clip 5 0.98 0.95 = Inr motion \<and>
              motion_continuity (calculate_overall_score Map.empty Map.empty Map.empty motion) = 0)"
    by blast
  from short_clip_continuity [where fb = example_flow and v = still_clip and sr = 1
      and resize = id and dt = "0.98" and st = "0.95" and bas = Map.empty and fpsd = Map.empty
      and dyn = Map.empty, OF h1] b c
  have l: "\<exists>motion. analyze_motion_quality id example_flow still_clip 1 0.98 0.95 = Inr motion \<and>
              motion_continuity (calculate_overall_score Map.empty Map.empty Map.empty motion) = 25"
    by blast
  from h5 h1 a b c s l show ?thesis by blast
qed

section \<open>Wobble distortion: the claim\<close>

lemma wobble_loop_scores:
  "wobble_loop fb sr fs prev gvs n ac =
     gvs @ map (\<lambda>p. grid_variance_score (fb (fst p) (snd p)))
             (pairs (opt_list prev @ sampled_from sr n fs))"
proof (induction fs arbitrary: prev gvs n ac)
  case Nil
  then show ?case by (cases prev) (simp_all add: opt_list_def)
next
  case (Cons x xs)
  show ?case
  proof (cases "int n mod sr = 0")
    case False
    then show ?thesis by (simp add: sampled_from_Cons Cons.IH)
  next
    case True
    then show ?thesis
      by (cases prev) (simp_all add: sampled_from_Cons Cons.IH opt_list_def)
  qed
qed

lemma block_variance_nonneg: "block_variance fl i j = Some x \<Longrightarrow> 0 \<le> x"
  using var_nonneg[of "map magnitude (grid_block fl i j)"]
        var_nonneg[of "map (\<lambda>v. arctan2 (snd v) (fst v)) (grid_block fl i j)"]
  by (auto simp: block_variance_def Let_def split: if_splits)

lemma nan_mean_nonneg:
  assumes "\<And>x. Some x \<in> set xs \<Longrightarrow> 0 \<le> x" "nan_mean xs = Some m"
  shows "0 \<le> m"
proof -
  from assms(2) have n: "None \<notin> set xs" and m: "m = mean (map the xs)"
    by (auto simp: nan_mean_def split: if_splits)
  have "0 \<le> mean (map the xs)"
  proof (rule mean_nonneg)
    fix x assume "x \<in> set (map the xs)"
    then obtain y where y: "y \<in> set xs" "x = the y" by auto
    with n obtain z where "y = Some z" by (cases y) auto
    with y assms(1) show "0 \<le> x" by auto
  qed
  then show ?thesis by (simp add: m)
qed

lemma grid_variance_score_nonneg: "grid_variance_score fl = Some x \<Longrightarrow> 0 \<le> x"
  unfolding grid_variance_score_def
  by (rule nan_mean_nonneg) (auto simp: block_variances_def dest: block_variance_nonneg[OF sym])

lemma wobble_result_range:
  assumes "\<And>x. Some x \<in> set gvs \<Longrightarrow> 0 \<le> x"
  shows "0 \<le> wobble_distortion_score (wobble_result gvs) \<and>
         wobble_distortion_score (wobble_result gvs) \<le> 100"
proof (cases "nan_mean gvs")
  case None
  then show ?thesis by (simp add: wobble_result_def Let_def)
next
  case (Some m)
  have "0 \<le> m" by (rule nan_mean_nonneg[OF assms Some])
  then show ?thesis using Some by (simp add: wobble_result_def Let_def)
qed










lemma wobble_loop_result:
  "wobble_loop fb sr fs None [] 0 0 =
     map grid_variance_score (map (\<lambda>p. fb (fst p) (snd p)) (pairs (sampled_frames sr fs)))"
  by (simp add: wobble_loop_scores opt_list_def sampled_frames_def o_def)









section \<open>Per-second buckets: the claims\<close>

lemma keys_defaultdict_update:
  "map fst (defaultdict_update d f k m) =
     (if k \<in> set (map fst m) then map fst m else map fst m @ [k])"
  by (induction m) force+

lemma distinct_defaultdict_update:
  "distinct (map fst m) \<Longrightarrow> distinct (map fst (defaultdict_update d f k m))"
  by (simp add: keys_defaultdict_update)

lemma sum_defaultdict_update:
  assumes "\<And>v. g (f v) = g v + 1" "g d = 0"
  shows "sum_list (map (g \<circ> snd) (defaultdict_update d f k m)) = sum_list (map (g \<circ> snd) m) + (1::nat)"
  using assms by (induction m) auto

lemma defaultdict_update_nonempty: "defaultdict_update d f k m \<noteq> []"
  by (cases m) (auto split: if_splits)

lemma fps_loop_returns:
  assumes "c \<noteq> 0 \<or> n + length fs < 100"
  shows "\<exists>m'. fps_loop d c fs m n = Inr (m', n + length fs) \<and>
           sum_list (map snd m') = sum_list (map snd m) + length fs \<and>
           (distinct (map fst m) \<longrightarrow> distinct (map fst m')) \<and>
           (fs \<noteq> [] \<longrightarrow> m' \<noteq> []) \<and> (fs = [] \<longrightarrow> m' = m)"
  using assms
proof (induction fs arbitrary: m n)
  case Nil
  then show ?case by simp
next
  case (Cons x xs)
  let ?m = "defaultdict_update 0 (\<lambda>c. c + 1) (py_int (if d > 0 then real n / d else 0)) m"
  have ok: "\<not> ((n + 1) mod 100 = 0 \<and> c = 0)"
  proof
    assume a: "(n + 1) mod 100 = 0 \<and> c = 0"
    with Cons.prems have "n + 1 < 100" by auto
    then have "(n + 1) mod 100 = n + 1" by simp
    with a show False by simp
  qed
  have "c \<noteq> 0 \<or> (n + 1) + length xs < 100" using Cons.prems by auto
  from Cons.IH[OF this, of ?m]
  obtain m' where m': "fps_loop d c xs ?m (n + 1) = Inr (m', n + 1 + length xs)"
      "sum_list (map snd m') = sum_list (map snd ?m) + length xs"
      "distinct (map fst ?m) \<longrightarrow> distinct (map fst m')"
      "xs \<noteq> [] \<longrightarrow> m' \<noteq> []" "xs = [] \<longrightarrow> m' = ?m"
    by blast
  have s: "sum_list (map snd ?m) = sum_list (map snd m) + 1"
    using sum_defaultdict_update[where g = id and f = "\<lambda>c. c + 1" and d = 0 and m = m] by simp
  have ne: "m' \<noteq> []" using m'(4,5) defaultdict_update_nonempty by metis
  show ?case
    using ok m' s ne distinct_defaultdict_update[of m]
    by (auto simp: Let_def)
qed

lemma map_fst_sorted_items: "map fst (sorted_items m) = sort (map fst m)"
  unfolding sorted_items_def
proof (rule sym, rule properties_for_sort)
  show "mset (map fst (sort_key fst m)) = mset (map fst m)"
    by (metis mset_map mset_sort)
  show "sorted (map fst (sort_key fst m))"
    by (rule sorted_sort_key)
qed

lemma mset_sorted_items: "mset (sorted_items m) = mset m"
  by (simp add: sorted_items_def)

lemma sum_sorted_items: "sum_list (map f (sorted_items m)) = sum_list (map f (m :: (int \<times> 'a) list) :: nat list)"
proof -
  have "mset (map f (sorted_items m)) = mset (map f m)"
    by (metis mset_map mset_sorted_items)
  then show ?thesis by (metis sum_mset_sum_list)
qed


lemma per_second_bucket_simps [simp]:
  "is_complete_second (per_second_bucket dur l s c) = (s \<noteq> l)"
  "frame_count (per_second_bucket dur l s c) = c"
  by (simp_all add: per_second_bucket_def Let_def)

lemma per_second_fps_buckets:
  fixes d :: real and n :: nat and m :: "(int \<times> nat) list"
  assumes "distinct (map fst m)" "m \<noteq> []"
  defines "bs \<equiv> per_second_fps d n m"
  shows "bs \<noteq> [] \<and> \<not> is_complete_second (snd (last bs)) \<and>
         (\<forall>b \<in> set (butlast bs). is_complete_second (snd b)) \<and>
         sum_list (map (frame_count \<circ> snd) bs) = sum_list (map snd m)"
proof -
  define sm where "sm = sorted_items m"
  define l where "l = last (sort (map fst m))"
  define dur where "dur = (if d > 0 then real n / d else 0)"
  define g where "g = (\<lambda>p :: int \<times> nat. (fst p, per_second_bucket dur l (fst p) (snd p)))"
  have ks: "map fst sm = sort (map fst m)" by (simp add: sm_def map_fst_sorted_items)
  have "length sm = length m" by (simp add: sm_def sorted_items_def)
  then have ne: "sm \<noteq> []" using assms(2) by auto
  have "length (sort (map fst m)) = length m" by simp
  then have kne: "sort (map fst m) \<noteq> []" using assms(2) by (metis length_0_conv)
  have bs: "bs = map g sm"
    using kne by (simp add: bs_def per_second_fps_def Let_def sm_def l_def dur_def g_def
        case_prod_beta)
  have l: "l = fst (last sm)" using ne by (simp add: l_def ks[symmetric] last_map)
  have dist: "distinct (map fst sm)" using assms(1) by (simp add: ks)
  have sm: "sm = butlast sm @ [last sm]" using ne by simp
  have "distinct (map fst (butlast sm @ [last sm]))" using dist sm by simp
  then have "fst (last sm) \<notin> fst ` set (butlast sm)" by simp
  then have nl: "\<And>p. p \<in> set (butlast sm) \<Longrightarrow> fst p \<noteq> l"
    unfolding l by (metis imageI)
  have 1: "bs \<noteq> []" using ne bs by simp
  have 2: "\<not> is_complete_second (snd (last bs))"
    using ne by (simp add: bs last_map g_def l)
  have 3: "\<forall>b \<in> set (butlast bs). is_complete_second (snd b)"
    using nl by (auto simp: bs map_butlast[symmetric] g_def)
  have "sum_list (map (frame_count \<circ> snd) bs) = sum_list (map snd sm)"
    by (simp add: bs g_def o_def)
  also have "\<dots> = sum_list (map snd m)" unfolding sm_def by (rule sum_sorted_items)
  finally show ?thesis using 1 2 3 by blast
qed

lemma per_second_fps_empty [simp]: "per_second_fps d n [] = []"
  by (simp add: per_second_fps_def)



lemma fd_loop_returns:
  assumes "c \<noteq> 0 \<or> n + length fs < 30"
  shows "\<exists>fd'. fd_loop d c sr fs prev n fd = Inr fd' \<and>
           length fd' = length fd + length (sampled_from sr n fs) \<and>
           (\<forall>f \<in> set fd'. f \<in> set fd \<or>
              (frame_number f < n + length fs \<and>
               timestamp f = (if d > 0 then real (frame_number f) / d else 0)))"
  using assms
proof (induction fs arbitrary: prev n fd)
  case Nil
  then show ?case by simp
next
  case (Cons x xs)
  have step: "c \<noteq> 0 \<or> (n + 1) + length xs < 30" using Cons.prems by auto
  show ?case
  proof (cases "int n mod sr = 0")
    case False
    from Cons.IH[OF step, of prev fd] False show ?thesis
      by (auto simp: sampled_from_Cons)
  next
    case True
    have ok: "\<not> ((n + 1) mod 30 = 0 \<and> c = 0)"
    proof
      assume a: "(n + 1) mod 30 = 0 \<and> c = 0"
      with Cons.prems have "n + 1 < 30" by auto
      then have "(n + 1) mod 30 = n + 1" by simp
      with a show False by simp
    qed
    define st where "st = \<lparr> brightness = np_mean x,
                         contrast = std (map real x),
                         frame_diff =
                           (case prev of
                              None \<Rightarrow> 0.0
                            | Some p \<Rightarrow> np_mean (absdiff p x)),
                         motion_intensity =
                           (case prev of
                              None \<Rightarrow> 0.0
                            | Some p \<Rightarrow> std (map real (absdiff p x))),
                         frame_number = n,
                         timestamp = (if d > 0 then real n / d else 0) \<rparr>"
    from Cons.IH[OF step, of "Some x" "fd @ [st]"]
    obtain fd' where fd': "fd_loop d c sr xs (Some x) (n + 1) (fd @ [st]) = Inr fd'"
      "length fd' = length (fd @ [st]) + length (sampled_from sr (n + 1) xs)"
      "\<forall>f \<in> set fd'. f \<in> set (fd @ [st]) \<or>
              (frame_number f < n + 1 + length xs \<and>
               timestamp f = (if d > 0 then real (frame_number f) / d else 0))"
      by blast
    have "fd_loop d c sr (x # xs) prev n fd = Inr fd'"
      using True ok fd'(1) by (simp add: Let_def st_def)
    moreover have "length fd' = length fd + length (sampled_from sr n (x # xs))"
      using True fd'(2) by (simp add: sampled_from_Cons)
    moreover have "\<forall>f \<in> set fd'. f \<in> set fd \<or>
              (frame_number f < n + length (x # xs) \<and>
               timestamp f = (if d > 0 then real (frame_number f) / d else 0))"
      using fd'(3) by (auto simp: st_def)
    ultimately show ?thesis by blast
  qed
qed





text \<open>
  Claim C7, as the code has it. For a video with at least one frame (so at least one
  bucket) whose declared frame count is not zero or that has fewer than 100 frames, the
  analysis returns, the final bucket is flagged incomplete whatever the duration, and every
  other bucket is flagged complete.
\<close>

theorem last_bucket_incomplete:
  assumes "frames v \<noteq> []" and "total_frame_count v \<noteq> 0 \<or> length (frames v) < 100"
  shows "\<exists>r. analyze_fps_dynamics v = Inr r \<and> buckets_per_second r \<noteq> [] \<and>
           \<not> is_complete_second (snd (last (buckets_per_second r))) \<and>
           (\<forall>b \<in> set (butlast (buckets_per_second r)). is_complete_second (snd b))"
proof -
  from fps_loop_returns[of "total_frame_count v" 0 "frames v" "declared_fps v" "[]"] assms
  obtain m where m: "fps_loop (declared_fps v) (total_frame_count v) (frames v) [] 0
                       = Inr (m, length (frames v))" "distinct (map fst m)" "m \<noteq> []"
    by auto
  from per_second_fps_buckets[OF m(2,3), of "declared_fps v" "length (frames v)"]
  show ?thesis by (simp add: analyze_fps_dynamics_def m(1) Let_def)
qed

theorem last_bucket_incomplete_witness:
  "frames two_second_clip \<noteq> [] \<and> total_frame_count two_second_clip \<noteq> 0 \<and>
   (\<exists>r. analyze_fps_dynamics two_second_clip = Inr r \<and> buckets_per_second r \<noteq> [] \<and>
      \<not> is_complete_second (snd (last (buckets_per_second r))) \<and>
      (\<forall>b \<in> set (butlast (buckets_per_second r)). is_complete_second (snd b)))"
proof -
  have h1: "frames two_second_clip \<noteq> []"
    by (simp add: two_second_clip_def)
  have h2: "total_frame_count two_second_clip \<noteq> 0 \<or> length (frames two_second_clip) < 100"
    by (simp add: two_second_clip_def)
  have h3: "total_frame_count two_second_clip \<noteq> 0"
    by (simp add: two_second_clip_def)
  from last_bucket_incomplete [OF h1 h2] h1 h3 show ?thesis by blast
qed

text \<open>
  The claim as it is written ties the flag of the final bucket to a duration that is not a
  whole number of seconds. Four frames at 2 frames per second last 2 seconds exactly, and
  the final bucket (second 1, which holds a full second of frames) is flagged incomplete.
\<close>

theorem last_bucket_counterexample:
  "video_duration two_second_clip = 2 \<and>
   map_sum id buckets_per_second (analyze_fps_dynamics two_second_clip) =
     Inr [(0, \<lparr> fps = 2, frame_count = 2, is_complete_second = True, actual_duration = 2 \<rparr>),
          (1, \<lparr> fps = 2, frame_count = 2, is_complete_second = False, actual_duration = 1 \<rparr>)]"
  by (simp add: video_duration_def two_second_clip_def analyze_fps_dynamics_def Let_def py_int_def
      per_second_fps_def sorted_items_def per_second_bucket_def)



section \<open>The aggregator: the claims\<close>

lemma std_nonneg: "0 \<le> std xs"
  by (simp add: std_def var_nonneg)

lemma fps_overall_stats_std: "0 \<le> dict_get (fps_overall_stats d bs) ''std_fps'' 0"
  by (simp add: fps_overall_stats_def Let_def dict_get_def std_nonneg)

lemma pts_jitter_percentage: "0 \<le> dict_get (analyze_pts_jitter ps d) ''jitter_percentage'' 100"
  by (simp add: analyze_pts_jitter_def Let_def dict_get_def std_nonneg)

lemma duplicate_ratio_nonneg:
  "analyze_duplicate_frames resize fs sr dt st = Inr dd \<Longrightarrow>
   0 \<le> dict_get dd ''total_duplicate_ratio'' 1"
  by (auto simp: analyze_duplicate_frames_def Let_def dict_get_def split: if_splits prod.splits)

lemma second_diffs_nonneg: "j \<in> set (second_diffs ms) \<Longrightarrow> 0 \<le> j"
  by (auto simp: second_diffs_def)

lemma jerkiness_range:
  assumes "\<And>j. j \<in> set js \<Longrightarrow> 0 \<le> j" "0 \<le> mm"
  shows "0 \<le> snd (snd (jerkiness mm js)) \<and> snd (snd (jerkiness mm js)) \<le> 100"
proof (cases "length js > 0 \<and> mm > 0")
  case False
  then show ?thesis by (auto simp: jerkiness_def Let_def)
next
  case True
  have "0 \<le> mean js" by (rule mean_nonneg) (rule assms(1))
  then have "0 \<le> real (length (filter (\<lambda>j. j > mean js + 2 * std js) js)) / real (length js) * 50
                  + mean js / mm * 50"
    using True by (intro add_nonneg_nonneg mult_nonneg_nonneg divide_nonneg_nonneg) auto
  then show ?thesis using True by (simp add: jerkiness_def Let_def)
qed

lemma motion_continuity_score_range:
  assumes "\<And>m. m \<in> set ms \<Longrightarrow> 0 \<le> m"
  defines "d \<equiv> motion_continuity_result ms (second_diffs ms)"
  shows "0 \<le> dict_get d ''motion_continuity_score'' 0 \<and> dict_get d ''motion_continuity_score'' 0 \<le> 100"
proof (cases "ms = []")
  case True
  then show ?thesis by (simp add: d_def motion_continuity_result_def dict_get_def)
next
  case False
  have mm: "0 \<le> mean ms" by (rule mean_nonneg) (rule assms(1))
  obtain a b c where j: "jerkiness (mean ms) (second_diffs ms) = (a, b, c)"
    by (metis prod_cases3)
  from jerkiness_range[OF second_diffs_nonneg mm, of "second_diffs ms"] j
  have "0 \<le> c \<and> c \<le> 100" by simp
  then show ?thesis using False
    by (simp add: d_def motion_continuity_result_def Let_def j dict_get_def)
qed

lemma wobble_dict_score: "0 \<le> dict_get (wobble_dict (wobble_result (wobble_loop fb sr fs None [] 0 0)))
          ''wobble_distortion_score'' 100"
proof -
  have "0 \<le> wobble_distortion_score (wobble_result (wobble_loop fb sr fs None [] 0 0))"
    using wobble_result_range[of "wobble_loop fb sr fs None [] 0 0"]
    by (auto simp: wobble_loop_result dest: grid_variance_score_nonneg[OF sym])
  then show ?thesis by (simp add: wobble_dict_def dict_get_def)
qed

lemma analyzers_in_range:
  assumes "analyze_fps_dynamics v = Inr r" "analyze_motion_quality resize fb v sr dt st = Inr motion"
    "sr \<noteq> 0"
  shows "analyzer_ranges (fps_dict r) motion"
proof -
  let ?ms = "map (\<lambda>p. mean_flow_magnitude (fb (fst p) (snd p))) (pairs (sampled_frames sr (frames v)))"
  from analyze_motion_quality_entries[OF assms(3), of resize fb v dt st] assms(2)
  obtain dd where e: "analyze_duplicate_frames resize (frames v) sr dt st = Inr dd"
      "motion ''effective_fps_pts_jitter'' = Some (analyze_pts_jitter (pts_ms v) (declared_fps v))"
      "motion ''duplicate_frame_ratio'' = Some dd"
      "analyze_motion_continuity fb (frames v) sr = Inr (the (motion ''motion_continuity''))"
      "motion ''motion_continuity'' \<noteq> None"
      "motion ''wobble_distortion'' =
             Some (wobble_dict (wobble_result (wobble_loop fb sr (frames v) None [] 0 0)))"
    by auto
  have mc: "motion ''motion_continuity'' = Some (motion_continuity_result ?ms (second_diffs ?ms))"
    using e(4,5) by (auto simp: analyze_motion_continuity_result[OF assms(3)])
  have os: "overall_stats r = fps_overall_stats (declared_fps v) (buckets_per_second r)"
    using assms(1) by (auto simp: analyze_fps_dynamics_def Let_def split: sum.splits prod.splits)
  have nn: "\<And>m. m \<in> set ?ms \<Longrightarrow> 0 \<le> m"
    by (auto simp: mean_flow_magnitude_nonneg)
  have mcr: "0 \<le> dict_get (motion_continuity_result ?ms (second_diffs ?ms))
                     ''motion_continuity_score'' 0 \<and>
             dict_get (motion_continuity_result ?ms (second_diffs ?ms))
                     ''motion_continuity_score'' 0 \<le> 100"
    by (rule motion_continuity_score_range) (rule nn)
  show ?thesis
    unfolding analyzer_ranges_def
    using e(2,3,6) mc os fps_overall_stats_std pts_jitter_percentage duplicate_ratio_nonneg[OF e(1)]
      mcr wobble_dict_score
    by (simp add: fps_dict_def)
qed

lemma run_analyses_returns:
  assumes "probe p = Inr b" "open_video p = Inr v"
    "total_frame_count v \<noteq> 0 \<or> length (frames v) < 30"
  shows "\<exists>a. run_analyses probe open_video resize fb p = Inr a"
proof -
  have c100: "total_frame_count v \<noteq> 0 \<or> 0 + length (frames v) < 100"
    and c30: "total_frame_count v \<noteq> 0 \<or> 0 + length (frames v) < 30"
    using assms(3) by auto
  from fps_loop_returns[OF c100, of "declared_fps v" "[]"]
  obtain r where r: "analyze_fps_dynamics v = Inr r"
    by (auto simp: analyze_fps_dynamics_def Let_def)
  from fd_loop_returns[OF c30, of "declared_fps v" 5 None "[]"]
  obtain dyn where dyn: "analyze_frame_dynamics v 5 = Inr dyn"
    by (auto simp: analyze_frame_dynamics_def)
  from analyze_motion_quality_entries[of 5 resize fb v "0.98" "0.95"]
  obtain motion where motion: "analyze_motion_quality resize fb v 5 0.98 0.95 = Inr motion"
    by auto
  show ?thesis
    using motion by (simp add: run_analyses_def assms(1,2) r dyn)
qed

lemma py_round2_values:
  "py_round2 25 = 25" "py_round2 15 = 15" "py_round2 10 = 10" "py_round2 0 = 0"
  using py_round2_cents[of 2500] py_round2_cents[of 1500] py_round2_cents[of 1000]
    py_round2_cents[of 0]
  by simp_all

text \<open>
  Claim C2. Whenever the analyses of a video return, each sub-score of the aggregator's
  result lies between 0 and its cap (25, 15, 15, 25, 10 and 10), the overall score is the
  sum of the six sub-scores, and it lies in [0, 100].
\<close>

theorem overall_score_ranges:
  assumes "run_analyses probe open_video resize fb video_path = Inr a"
  shows "scores_in_range (overall_score a)"
proof -
  from assms obtain bas v r dyn motion where
      "analyze_fps_dynamics v = Inr r"
      "analyze_motion_quality resize fb v 5 0.98 0.95 = Inr motion"
      "overall_score a = calculate_overall_score bas (fps_dict r) Map.empty motion"
    by (auto simp: run_analyses_def split: sum.splits)
  then show ?thesis
    using aggregator_ranges[OF analyzers_in_range[where sr = 5 and r = r and motion = motion]]
    by simp
qed

theorem overall_score_ranges_witness:
  "\<exists>a. run_analyses example_probe example_open id example_flow ''clip.mp4'' = Inr a \<and>
       scores_in_range (overall_score a)"
proof -
  have "\<exists>a. run_analyses example_probe example_open id example_flow ''clip.mp4'' = Inr a"
    by (rule run_analyses_returns[where v = still_clip])
       (simp_all add: example_probe_def example_open_def still_clip_def)
  then obtain a where a: "run_analyses example_probe example_open id example_flow ''clip.mp4'' = Inr a"
    ..
  from overall_score_ranges [OF a] a show ?thesis by blast
qed

text \<open>The run of the witness, evaluated: its scores are 25, 15, 15, 0, 10 and 3.\<close>

lemma example_total_score: "map_sum id (total_score \<circ> overall_score)
    (run_analyses example_probe example_open id example_flow ''clip.mp4'') = Inr 68"
  by (simp add: run_analyses_def example_probe_def example_open_def still_clip_def
    analyze_fps_dynamics_def analyze_frame_dynamics_def analyze_motion_quality_def
    analyze_duplicate_frames_def analyze_motion_continuity_def analyze_wobble_distortion_def
    analyze_pts_jitter_def Let_def py_int_def per_second_fps_def sorted_items_def
    per_second_bucket_def fps_overall_stats_def fps_dict_def calculate_overall_score_def
    fps_stability_of_def pts_jitter_of_def duplicate_frames_of_def motion_continuity_of_def
    wobble_of_def quality_of_def dict_get_def py_round2_def round_half_even_def
    mean_def std_def var_def np_mean_def absdiff_def aggregate_by_second_def 
    motion_continuity_result_def wobble_result_def wobble_dict_def median_def)

text \<open>
  Claim C3, as the code has it. For perfect inputs (a positive mean and zero deviation of
  the per-second FPS, zero jitter percentage, zero duplicate ratio, continuity score 100,
  zero wobble distortion) the five sub-scores of the analyzers are at their maxima; the
  sixth is the tier of the frame size (0, 3, 5, 8 or 10), so the overall score is 90 plus
  that tier, which is 100 exactly when the tier is 10 (a width of at least 3840 or a height
  of at least 2160); the grade is the highest one in every case.
\<close>

theorem perfect_video_scores:
  fixes bas fpsd dyn motion :: pydict2
  defines "s \<equiv> calculate_overall_score bas fpsd dyn motion"
  assumes "fpsd ''overall_stats'' = Some fps_stats"
      and "fps_stats ''mean_fps'' = Some mean_fps" and "0 < mean_fps"
      and "fps_stats ''std_fps'' = Some 0"
      and "motion ''effective_fps_pts_jitter'' = Some pts_data"
      and "pts_data ''jitter_percentage'' = Some 0"
      and "motion ''duplicate_frame_ratio'' = Some dup_data"
      and "dup_data ''total_duplicate_ratio'' = Some 0"
      and "motion ''motion_continuity'' = Some motion_data"
      and "motion_data ''motion_continuity_score'' = Some 100"
      and "motion ''wobble_distortion'' = Some wobble_data"
      and "wobble_data ''wobble_distortion_score'' = Some 0"
  shows "fps_stability s = 25 \<and> pts_jitter s = 15 \<and> duplicate_frames s = 15 \<and>
         motion_continuity s = 25 \<and> wobble s = 10 \<and>
         quality s = quality_of bas \<and> quality s \<in> {0, 3, 5, 8, 10} \<and>
         total_score s = 90 + quality s \<and> grade s = Excellent \<and>
         (total_score s = 100 \<longleftrightarrow> quality s = 10)"
proof -
  have 1: "fps_stability_of fpsd = 25"
    using assms(2-5) by (simp add: fps_stability_of_def dict_get_def py_round2_values)
  have 2: "pts_jitter_of motion = 15"
    using assms(6,7) by (simp add: pts_jitter_of_def dict_get_def py_round2_values)
  have 3: "duplicate_frames_of motion = 15"
    using assms(8,9) by (simp add: duplicate_frames_of_def dict_get_def py_round2_values)
  have 4: "motion_continuity_of motion = 25"
    using assms(10,11) by (simp add: motion_continuity_of_def dict_get_def py_round2_values)
  have 5: "wobble_of motion = 10"
    using assms(12,13) by (simp add: wobble_of_def dict_get_def py_round2_values)
  have q: "quality_of bas \<in> {0, 3, 5, 8, 10}" by (rule quality_values)
  have t: "py_round2 (fps_stability_of fpsd + pts_jitter_of motion + duplicate_frames_of motion +
              motion_continuity_of motion + wobble_of motion + quality_of bas) =
           90 + quality_of bas"
    unfolding total_is_sum by (simp add: 1 2 3 4 5)
  have g: "grade_of (90 + quality_of bas) = Excellent"
    using q by (auto simp: grade_of_def)
  show ?thesis
    using q t g unfolding s_def calculate_overall_score_def Let_def
    by (simp add: 1 2 3 4 5)
qed

theorem perfect_video_scores_witness:
  "perfect_fps ''overall_stats'' = Some [''mean_fps'' \<mapsto> 30, ''std_fps'' \<mapsto> 0] \<and>
   (0::real) < 30 \<and>
   total_score (calculate_overall_score full_hd perfect_fps Map.empty perfect_motion) = 90 + 8 \<and>
   grade (calculate_overall_score full_hd perfect_fps Map.empty perfect_motion) = Excellent \<and>
   motion_continuity (calculate_overall_score full_hd perfect_fps Map.empty perfect_motion) = 25"
proof -
  have q: "quality_of full_hd = 8"
    by (simp add: quality_of_def full_hd_def dict_get_def)
  from perfect_video_scores [where bas = full_hd and fpsd = perfect_fps and dyn = Map.empty
      and motion = perfect_motion
      and fps_stats = "[''mean_fps'' \<mapsto> 30, ''std_fps'' \<mapsto> 0]" and mean_fps = 30
      and pts_data = "[''jitter_percentage'' \<mapsto> 0]"
      and dup_data = "[''total_duplicate_ratio'' \<mapsto> 0]"
      and motion_data = "[''jerkiness_score'' \<mapsto> 0, ''motion_continuity_score'' \<mapsto> 100]"
      and wobble_data = "[''wobble_distortion_score'' \<mapsto> 0]"]
  show ?thesis
    by (simp add: perfect_fps_def perfect_motion_def q)
qed

text \<open>
  The claim as it is written gives every perfect video 100: a perfect clip of 1920 by 1080
  pixels has a resolution sub-score of 8 and an overall score of 98.
\<close>

theorem perfect_video_counterexample:
  "total_score (calculate_overall_score full_hd perfect_fps Map.empty perfect_motion) = 98 \<and>
   quality (calculate_overall_score full_hd perfect_fps Map.empty perfect_motion) = 8"
  by (simp add: calculate_overall_score_def full_hd_def perfect_fps_def perfect_motion_def
      fps_stability_of_def pts_jitter_of_def duplicate_frames_of_def motion_continuity_of_def
      wobble_of_def quality_of_def dict_get_def py_round2_def round_half_even_def Let_def)

section \<open>Batch runs: the claim\<close>

lemma process_loop_result:
  "process_loop analyze files order results logged completed calls =
     (results @ map (\<lambda>i. projr (analyze (files ! i))) (filter (\<lambda>i. \<not> isl (analyze (files ! i))) order),
      logged @ map (\<lambda>i. (files ! i, projl (analyze (files ! i))))
                 (filter (\<lambda>i. isl (analyze (files ! i))) order),
      calls @ map (\<lambda>p. (fst p, length files, files ! snd p))
                (enumerate (completed + 1) order))"
proof (induction order arbitrary: results logged completed calls)
  case Nil
  then show ?case by simp
next
  case (Cons i order)
  show ?case
    by (cases "analyze (files ! i)") (simp_all add: Cons.IH Let_def)
qed

lemma main_loop_result:
  "main_loop analyse fs results success_count error_count =
     (results @ map analyse fs, success_count + length fs, error_count)"
  by (induction fs arbitrary: results success_count) simp_all

text \<open>
  Claim C1, as the code has it. In a batch of N files of which exactly file K fails,
  \<open>process_files\<close> returns, whatever the order of completion, the N-1 successful results,
  each once, and nothing for file K: the failure is logged with K's path, and the progress
  callback is called N times, once with K's path. The loop of \<open>batch_analyze.main\<close> keeps N
  outcomes in the order of the files: N-1 successful ones and one error outcome, carrying
  K's path, at position K (its counter of successes counts all N).
\<close>

theorem batch_outcomes:
  fixes analyze :: "string \<Rightarrow> py_error + 'r" and pipeline :: "string \<Rightarrow> py_error + analyses"
  assumes "K < length files"
    and "mset completion = mset [0..<length files]"
    and "analyze (files ! K) = Inl e"
    and "\<forall>i < length files. i \<noteq> K \<longrightarrow> analyze (files ! i) = Inr (res i)"
    and "pipeline (files ! K) = Inl e'"
    and "\<forall>i < length files. i \<noteq> K \<longrightarrow> pipeline (files ! i) = Inr (an i)"
  shows "(\<exists>results calls.
            process_files analyze files completion = (results, [(files ! K, e)], calls) \<and>
            mset results = mset (map res (filter (\<lambda>i. i \<noteq> K) [0..<length files])) \<and>
            length results = length files - 1 \<and>
            map fst calls = [1..<length files + 1] \<and>
            map (snd \<circ> snd) calls = map ((!) files) completion) \<and>
         (\<exists>outcomes.
            main_loop (analyze_video name detect_model pipeline) files [] 0 0 =
              (outcomes, length files, 0) \<and>
            length outcomes = length files \<and>
            outcomes ! K =
              Failed (name (files ! K)) (files ! K) (detect_model (name (files ! K))) e' \<and>
            (\<forall>i < length files. i \<noteq> K \<longrightarrow>
               outcomes ! i =
                 Analysed (name (files ! i)) (files ! i) (detect_model (name (files ! i))) (an i)))"
proof -
  have sc: "set completion = {0..<length files}"
    using assms(2) by (metis mset_eq_setD set_upt)
  have lc: "length completion = length files"
    using assms(2) by (metis mset_eq_length length_upt diff_zero)
  have isl: "isl (analyze (files ! i)) \<longleftrightarrow> i = K" if "i \<in> set completion" for i
    using that assms(3,4) sc by (cases "i = K") auto
  have f1: "filter (\<lambda>i. \<not> isl (analyze (files ! i))) completion = filter (\<lambda>i. i \<noteq> K) completion"
    by (rule filter_cong) (auto simp: isl)
  have f2: "filter (\<lambda>i. isl (analyze (files ! i))) completion = filter (\<lambda>i. i = K) completion"
    by (rule filter_cong) (auto simp: isl)
  have f2': "filter (\<lambda>i. i = K) completion = filter ((=) K) completion"
    by (rule filter_cong) auto
  have "count (mset completion) K = 1"
    using assms(1) by (simp add: assms(2) count_mset count_list_eq_length_filter)
  then have f3: "filter (\<lambda>i. i = K) completion = [K]"
    unfolding f2' by (metis replicate_count_mset_eq_filter_eq replicate.simps One_nat_def)
  have m1: "map (\<lambda>i. projr (analyze (files ! i))) (filter (\<lambda>i. i \<noteq> K) completion) =
            map res (filter (\<lambda>i. i \<noteq> K) completion)"
    by (rule map_cong) (use assms(4) sc in auto)
  have ms: "mset (map res (filter (\<lambda>i. i \<noteq> K) completion)) =
            mset (map res (filter (\<lambda>i. i \<noteq> K) [0..<length files]))"
    by (metis assms(2) mset_filter mset_map)
  have "length (filter (\<lambda>i. i \<noteq> K) completion) + length (filter (\<lambda>i. i = K) completion) =
          length completion"
    using sum_length_filter_compl[of "\<lambda>i. i \<noteq> K" completion] by simp
  then have ln: "length (filter (\<lambda>i. i \<noteq> K) completion) = length files - 1"
    by (simp add: f3 lc)
  have "map fst (enumerate (0 + 1) completion) = [1..<length files + 1]"
    by (simp add: lc)
  then have calls1: "map fst (map (\<lambda>p. (fst p, length files, files ! snd p))
                  (enumerate (0 + 1) completion)) = [1..<length files + 1]"
    by (simp add: o_def)
  have e2: "map snd (enumerate (0 + 1) completion) = completion"
    by simp
  have "map (snd \<circ> snd) (map (\<lambda>p. (fst p, length files, files ! snd p))
                  (enumerate (0 + 1) completion)) =
        map ((!) files) (map snd (enumerate (0 + 1) completion))"
    unfolding map_map by (rule map_cong) simp_all
  then have calls2: "map (snd \<circ> snd) (map (\<lambda>p. (fst p, length files, files ! snd p))
                  (enumerate (0 + 1) completion)) = map ((!) files) completion"
    unfolding e2 .
  note calls = calls1 calls2
  have 1: "\<exists>results calls.
            process_files analyze files completion = (results, [(files ! K, e)], calls) \<and>
            mset results = mset (map res (filter (\<lambda>i. i \<noteq> K) [0..<length files])) \<and>
            length results = length files - 1 \<and>
            map fst calls = [1..<length files + 1] \<and>
            map (snd \<circ> snd) calls = map ((!) files) completion"
    unfolding process_files_def process_loop_result f1 f2 f3 m1
    using ms ln calls by (simp add: assms(3))
  let ?out = "map (analyze_video name detect_model pipeline) files"
  have 2: "main_loop (analyze_video name detect_model pipeline) files [] 0 0 =
              (?out, length files, 0)"
    by (simp add: main_loop_result)
  have 3: "?out ! K = Failed (name (files ! K)) (files ! K) (detect_model (name (files ! K))) e'"
    using assms(1,5) by (simp add: analyze_video_def)
  have 4: "\<forall>i < length files. i \<noteq> K \<longrightarrow>
               ?out ! i = Analysed (name (files ! i)) (files ! i) (detect_model (name (files ! i))) (an i)"
    using assms(6) by (simp add: analyze_video_def)
  have "\<exists>outcomes.
            main_loop (analyze_video name detect_model pipeline) files [] 0 0 =
              (outcomes, length files, 0) \<and>
            length outcomes = length files \<and>
            outcomes ! K =
              Failed (name (files ! K)) (files ! K) (detect_model (name (files ! K))) e' \<and>
            (\<forall>i < length files. i \<noteq> K \<longrightarrow>
               outcomes ! i =
                 Analysed (name (files ! i)) (files ! i) (detect_model (name (files ! i))) (an i))"
    using 2 3 4 by (intro exI[of _ ?out]) simp
  with 1 show ?thesis by blast
qed

theorem batch_outcomes_witness:
  "(1::nat) < length example_files \<and>
   mset [2, 0, 1] = mset [0..<length example_files] \<and>
   example_analyze (example_files ! 1) = Inl FileNotFoundError \<and>
   example_pipeline (example_files ! 1) = Inl FileNotFoundError \<and>
   (\<exists>results calls.
      process_files example_analyze example_files [2, 0, 1] =
        (results, [(''missing.mp4'', FileNotFoundError)], calls) \<and>
      length results = 2 \<and> map fst calls = [1, 2, 3]) \<and>
   (\<exists>outcomes.
      main_loop (analyze_video id id example_pipeline) example_files [] 0 0 = (outcomes, 3, 0) \<and>
      length outcomes = 3 \<and>
      outcomes ! 1 = Failed ''missing.mp4'' ''missing.mp4'' ''missing.mp4'' FileNotFoundError)"
proof -
  have h1: "(1::nat) < length example_files"
    by (simp add: example_files_def)
  have h2: "mset [2, 0, 1] = mset [0..<length example_files]"
    by (simp add: example_files_def upt_rec_numeral add_mset_commute)
  have h3: "example_analyze (example_files ! 1) = Inl FileNotFoundError"
    by (simp add: example_files_def example_analyze_def)
  have h4: "\<forall>i < length example_files. i \<noteq> 1 \<longrightarrow>
              example_analyze (example_files ! i) = Inr (example_files ! i)"
    by (auto simp: example_files_def example_analyze_def nth_Cons split: nat.splits)
  have h5: "example_pipeline (example_files ! 1) = Inl FileNotFoundError"
    by (simp add: example_files_def example_pipeline_def run_analyses_def example_probe_def)
  have ret: "\<exists>a. example_pipeline p = Inr a" if "p \<noteq> ''missing.mp4''" for p
    unfolding example_pipeline_def
    by (rule run_analyses_returns[where v = still_clip])
       (use that in \<open>simp_all add: example_probe_def example_open_def still_clip_def\<close>)
  have h6: "\<forall>i < length example_files. i \<noteq> 1 \<longrightarrow>
              example_pipeline (example_files ! i) = Inr (projr (example_pipeline (example_files ! i)))"
  proof (intro allI impI)
    fix i assume "i < length example_files" "i \<noteq> 1"
    then have "example_files ! i \<noteq> ''missing.mp4''"
      by (auto simp: example_files_def nth_Cons split: nat.splits)
    from ret[OF this] show
      "example_pipeline (example_files ! i) = Inr (projr (example_pipeline (example_files ! i)))"
      by auto
  qed
  from batch_outcomes [OF h1 h2 h3 h4 h5 h6, of id id]
  obtain results calls outcomes where
    p: "process_files example_analyze example_files [2, 0, 1] =
          (results, [(example_files ! 1, FileNotFoundError)], calls)"
       "length results = length example_files - 1"
       "map fst calls = [1..<length example_files + 1]"
    and m: "main_loop (analyze_video id id example_pipeline) example_files [] 0 0 =
          (outcomes, length example_files, 0)"
       "length outcomes = length example_files"
       "outcomes ! 1 = Failed (id (example_files ! 1)) (example_files ! 1)
                         (id (id (example_files ! 1))) FileNotFoundError"
    by blast
  have f: "example_files ! 1 = ''missing.mp4''" "length example_files = 3"
    by (simp_all add: example_files_def)
  have u: "[1..<3 + 1] = [1, 2, 3::nat]"
    by code_simp
  have A: "\<exists>results calls.
      process_files example_analyze example_files [2, 0, 1] =
        (results, [(''missing.mp4'', FileNotFoundError)], calls) \<and>
      length results = 2 \<and> map fst calls = [1, 2, 3]"
    using p unfolding f u by (intro exI[of _ results] exI[of _ calls]) simp
  have B: "\<exists>outcomes.
      main_loop (analyze_video id id example_pipeline) example_files [] 0 0 = (outcomes, 3, 0) \<and>
      length outcomes = 3 \<and>
      outcomes ! 1 = Failed ''missing.mp4'' ''missing.mp4'' ''missing.mp4'' FileNotFoundError"
    using m unfolding f by (intro exI[of _ outcomes]) simp
  from h1 h2 h3 h5 A B show ?thesis by blast
qed

text \<open>
  The claim as it is written has N outcomes for every batch run: of three files with the
  second one missing, \<open>process_files\<close> returns two results and no error outcome.
\<close>

theorem batch_outcomes_counterexample:
  "process_files example_analyze example_files [2, 0, 1] =
     ([''b.mp4'', ''a.mp4''],
      [(''missing.mp4'', FileNotFoundError)],
      [(1, 3, ''b.mp4''), (2, 3, ''a.mp4''), (3, 3, ''missing.mp4'')])"
  by (simp add: process_files_def example_analyze_def example_files_def Let_def
      numeral_2_eq_2 numeral_3_eq_3)

end
